theory Spec2Isabelle
  imports Main
begin

section \<open>JavaScript values, thrown errors and tool output\<close>

text \<open>
  The arguments of a call and the parsed tools configuration are JSON documents. A JSON
  object is the list of its properties; a property that is not there reads as
  \<open>undefined\<close>. A number is kept as the text that \<open>String()\<close> prints for it, which
  decides all that this program does with a number: its truthiness, whether it equals
  another value, and its text in a message.
\<close>

datatype jsval =
    JUndefined
  | JNull
  | JBool bool
  | JNum string
  | JStr string
  | JArr "jsval list"
  | JObj "(string \<times> jsval) list"

text \<open>Property access \<open>v.k\<close> on a value that is neither \<open>null\<close> nor \<open>undefined\<close>.\<close>

fun get_prop :: "jsval \<Rightarrow> string \<Rightarrow> jsval" where
  "get_prop (JObj kvs) k = (case map_of kvs k of Some v \<Rightarrow> v | None \<Rightarrow> JUndefined)"
| "get_prop _ k = JUndefined"

text \<open>Truthiness, as an \<open>if (v)\<close> or \<open>v && ...\<close> tests it.\<close>

fun js_truthy :: "jsval \<Rightarrow> bool" where
  "js_truthy JUndefined = False"
| "js_truthy JNull = False"
| "js_truthy (JBool b) = b"
| "js_truthy (JNum n) = (n \<noteq> ''0'')"
| "js_truthy (JStr s) = (s \<noteq> [])"
| "js_truthy (JArr _) = True"
| "js_truthy (JObj _) = True"

text \<open>
  A value typed \<open>string | undefined\<close> is a \<open>string option\<close>; \<open>truthy_string\<close> gives the
  string when the value is truthy (defined and not empty).
\<close>

fun truthy_string :: "string option \<Rightarrow> string option" where
  "truthy_string None = None"
| "truthy_string (Some s) = (if s = [] then None else Some s)"

fun join :: "string \<Rightarrow> string list \<Rightarrow> string" where
  "join sep [] = []"
| "join sep [x] = x"
| "join sep (x # y # ys) = x @ sep @ join sep (y # ys)"

text \<open>\<open>String(v)\<close>, which a template literal applies to an interpolated value.\<close>

fun js_String :: "jsval \<Rightarrow> string" where
  "js_String JUndefined = ''undefined''"
| "js_String JNull = ''null''"
| "js_String (JBool b) = (if b then ''true'' else ''false'')"
| "js_String (JNum n) = n"
| "js_String (JStr s) = s"
| "js_String (JArr vs) =
     join '','' (map (\<lambda>v. if v = JUndefined \<or> v = JNull then [] else js_String v) vs)"
| "js_String (JObj _) = ''[object Object]''"

datatype ErrorCode = MethodNotFound | InvalidParams | InternalError

fun code_number :: "ErrorCode \<Rightarrow> string" where
  "code_number MethodNotFound = ''-32601''"
| "code_number InvalidParams = ''-32602''"
| "code_number InternalError = ''-32603''"

text \<open>
  What a \<open>throw\<close> raises or a promise rejects with: an \<open>McpError\<close> (its code and the
  message given to its constructor), another \<open>Error\<close> (its message), or a value that is
  not an \<open>Error\<close>.
\<close>

datatype js_error =
    McpError ErrorCode string
  | Error string
  | Thrown jsval

text \<open>
  \<open>error instanceof Error ? error.message : String(error)\<close>. The constructor of
  \<open>McpError\<close> in the protocol SDK sets the message to the code and the given text.
\<close>

fun errorMessage :: "js_error \<Rightarrow> string" where
  "errorMessage (McpError code msg) = ''MCP error '' @ code_number code @ '': '' @ msg"
| "errorMessage (Error msg) = msg"
| "errorMessage (Thrown v) = js_String v"

datatype ContentPart = TextContent string

record ToolOutput =
  content :: "ContentPart list"
  isError :: "bool option"

section \<open>Process options and the connection-string resolver\<close>

record ProcessOptions =
  opt_connectionString :: "string option"
  opt_toolsConfig :: "string option"
  env_POSTGRES_CONNECTION_STRING :: "string option"

definition no_connection_string :: string where
  "no_connection_string = ''No connection string provided. Provide one in the tool arguments, via the --connection-string CLI option, or set the POSTGRES_CONNECTION_STRING environment variable.''"

text \<open>
  The argument of the resolver is declared a string or undefined, but nothing checks what a
  handler passes: it is whatever value the arguments of the call hold, and a truthy one
  is returned as it is.
\<close>

type_synonym GetConnectionStringFn = "jsval \<Rightarrow> js_error + jsval"

definition getConnectionString :: "ProcessOptions \<Rightarrow> GetConnectionStringFn" where
  "getConnectionString options connectionStringArg =
     (if js_truthy connectionStringArg then Inr connectionStringArg
      else
        (case truthy_string (opt_connectionString options) of
           Some cliConnectionString \<Rightarrow> Inr (JStr cliConnectionString)
         | None \<Rightarrow>
             (case truthy_string (env_POSTGRES_CONNECTION_STRING options) of
                Some envConnectionString \<Rightarrow> Inr (JStr envConnectionString)
              | None \<Rightarrow> Inl (McpError InvalidParams no_connection_string))))"

section \<open>The shared database connection\<close>

text \<open>
  \<open>DatabaseConnection\<close> is a singleton (\<open>getInstance\<close>): every handler works on the same
  object. Its fields and the module-level \<open>poolCache\<close> form the state below. A pool is
  identified by the connection string it was created for, a checked-out client by the
  connection string of its pool. A connection string is the value the resolver returned,
  a string or not. What the driver answers is a parameter: whether \<open>pool.connect()\<close>
  gives a client, and what \<open>client.query\<close> returns on a client of a given database.
\<close>

datatype sql =
    Select1
  | SettingsQuery
  | VersionQuery
  | TableStatsQuery
  | IndexStatsQuery
  | CacheHitRatioQuery
  | DatabaseSizeQuery
  | RolesQuery
  | TablesWithoutRLSQuery
  | SslStatusQuery

type_synonym row = string

record pg_driver =
  pool_connect :: "jsval \<Rightarrow> js_error option"
  client_query :: "jsval \<Rightarrow> sql \<Rightarrow> js_error + row list"

record DatabaseConnection =
  pool :: "jsval option"
  client :: "jsval option"
  connectionString :: jsval
  lastError :: "string option"
  poolCache :: "jsval set"

definition initial_db :: DatabaseConnection where
  "initial_db = \<lparr>pool = None, client = None, connectionString = JStr [], lastError = None,
     poolCache = {}\<rparr>"

definition disconnect :: "DatabaseConnection \<Rightarrow> DatabaseConnection" where
  "disconnect db = db\<lparr>client := None, connectionString := JStr []\<rparr>"

text \<open>
  \<open>a === b\<close> on the connection strings of two calls: equal strings, numbers and booleans
  are the same value; an array or an object of one call is never the object of another.
\<close>

fun is_primitive :: "jsval \<Rightarrow> bool" where
  "is_primitive (JArr _) = False"
| "is_primitive (JObj _) = False"
| "is_primitive _ = True"

definition js_strict_equal :: "jsval \<Rightarrow> jsval \<Rightarrow> bool" where
  "js_strict_equal a b = (a = b \<and> is_primitive a)"

text \<open>The \<open>catch\<close> block of \<open>connect\<close>.\<close>

definition connect_failed ::
  "js_error \<Rightarrow> DatabaseConnection \<Rightarrow> (js_error + row list) \<times> DatabaseConnection" where
  "connect_failed error db =
     (let db1 = db\<lparr>lastError := Some (errorMessage error)\<rparr>;
          db2 = db1\<lparr>client := None\<rparr>;
          db3 = (if pool db2 \<noteq> None
                 then db2\<lparr>poolCache := poolCache db2 - {connectionString db2}, pool := None\<rparr>
                 else db2)
      in (Inl (Error (''Failed to connect to database: '' @ errorMessage error)), db3))"

definition connect ::
  "pg_driver \<Rightarrow> ProcessOptions \<Rightarrow> jsval \<Rightarrow> DatabaseConnection
     \<Rightarrow> (js_error + row list) \<times> DatabaseConnection" where
  "connect pg options connectionStringArg db =
     (let connString =
        (if js_truthy connectionStringArg then connectionStringArg
         else (case env_POSTGRES_CONNECTION_STRING options of
                 None \<Rightarrow> JUndefined
               | Some envConnectionString \<Rightarrow> JStr envConnectionString))
      in if \<not> js_truthy connString then
           connect_failed
             (Error ''No connection string provided and POSTGRES_CONNECTION_STRING environment variable is not set'')
             db
         else if pool db \<noteq> None \<and> js_strict_equal (connectionString db) connString
           then (Inr [], db)
         else
           let db1 = (if pool db \<noteq> None then disconnect db else db);
               db2 = db1\<lparr>connectionString := connString, pool := Some connString,
                       poolCache := insert connString (poolCache db1)\<rparr>
           in (case pool_connect pg connString of
                 Some error \<Rightarrow> connect_failed error db2
               | None \<Rightarrow>
                   let db3 = db2\<lparr>client := Some connString\<rparr>
                   in (case client_query pg connString Select1 of
                         Inl error \<Rightarrow> connect_failed error db3
                       | Inr _ \<Rightarrow> (Inr [], db3))))"

definition query ::
  "pg_driver \<Rightarrow> sql \<Rightarrow> DatabaseConnection \<Rightarrow> (js_error + row list) \<times> DatabaseConnection" where
  "query pg text db =
     (case client db of
        None \<Rightarrow> (Inl (Error ''Not connected to database''), db)
      | Some c \<Rightarrow>
          (case pool db of
             None \<Rightarrow> (Inl (Error ''Not connected to database''), db)
           | Some _ \<Rightarrow>
               (case client_query pg c text of
                  Inl error \<Rightarrow>
                    (Inl (Error (''Query failed: '' @ errorMessage error)),
                     db\<lparr>lastError := Some (errorMessage error)\<rparr>)
                | Inr rows \<Rightarrow> (Inr rows, db))))"

section \<open>Asynchronous handlers\<close>

text \<open>
  A handler is an \<open>async\<close> function: it runs until it awaits a call on the database
  connection, and resumes with what that call returned or threw. \<open>Done r\<close> is the settled
  promise (\<open>Inl\<close> rejected, \<open>Inr\<close> fulfilled); \<open>Await op k\<close> awaits \<open>op\<close> and continues as \<open>k\<close>.
\<close>

datatype dbop = DbConnect jsval | DbQuery sql | DbDisconnect

datatype 'a task = Done 'a | Await dbop "js_error + row list \<Rightarrow> 'a task"

primrec bind :: "'a task \<Rightarrow> ('a \<Rightarrow> 'b task) \<Rightarrow> 'b task" where
  "bind (Done r) f = f r"
| "bind (Await op k) f = Await op (\<lambda>x. bind (k x) f)"

definition await :: "dbop \<Rightarrow> (js_error + row list) task" where
  "await op = Await op Done"

text \<open>\<open>const v = await t; ...\<close>: a rejection of \<open>t\<close> leaves the rest out.\<close>

definition try_bind :: "(js_error + 'a) task \<Rightarrow> ('a \<Rightarrow> (js_error + 'b) task) \<Rightarrow> (js_error + 'b) task" where
  "try_bind t f = bind t (\<lambda>r. case r of Inl e \<Rightarrow> Done (Inl e) | Inr v \<Rightarrow> f v)"

text \<open>\<open>try { t } catch (error) { h error }\<close>.\<close>

definition try_catch :: "(js_error + 'a) task \<Rightarrow> (js_error \<Rightarrow> (js_error + 'a) task) \<Rightarrow> (js_error + 'a) task" where
  "try_catch t h = bind t (\<lambda>r. case r of Inl e \<Rightarrow> h e | Inr v \<Rightarrow> Done (Inr v))"

definition exec_op ::
  "pg_driver \<Rightarrow> ProcessOptions \<Rightarrow> dbop \<Rightarrow> DatabaseConnection
     \<Rightarrow> (js_error + row list) \<times> DatabaseConnection" where
  "exec_op pg options op db =
     (case op of
        DbConnect s \<Rightarrow> connect pg options s db
      | DbQuery text \<Rightarrow> query pg text db
      | DbDisconnect \<Rightarrow> (Inr [], disconnect db))"

text \<open>One call run alone, from start to end.\<close>

primrec run_task ::
  "pg_driver \<Rightarrow> ProcessOptions \<Rightarrow> 'a task \<Rightarrow> DatabaseConnection \<Rightarrow> 'a \<times> DatabaseConnection" where
  "run_task pg options (Done r) db = (r, db)"
| "run_task pg options (Await op k) db =
     (let (x, db') = exec_op pg options op db in run_task pg options (k x) db')"

text \<open>
  Two calls in flight: the schedule says which of them resumes next (\<open>True\<close> the first).
  A call that has settled ignores its turns.
\<close>

fun interleave ::
  "pg_driver \<Rightarrow> ProcessOptions \<Rightarrow> bool list \<Rightarrow> 'a task \<Rightarrow> 'b task \<Rightarrow> DatabaseConnection
     \<Rightarrow> 'a task \<times> 'b task \<times> DatabaseConnection" where
  "interleave pg options [] ta tb db = (ta, tb, db)"
| "interleave pg options (True # sched) (Await op k) tb db =
     (let (x, db') = exec_op pg options op db in interleave pg options sched (k x) tb db')"
| "interleave pg options (False # sched) ta (Await op k) db =
     (let (x, db') = exec_op pg options op db in interleave pg options sched ta (k x) db')"
| "interleave pg options (_ # sched) ta tb db = interleave pg options sched ta tb db"

section \<open>Tools and the server\<close>

text \<open>
  \<open>inputSchema\<close> is the zod schema of the tool, taken as the set of values its \<open>parse\<close>
  accepts.
\<close>

record SierraTool =
  name :: string
  description :: string
  inputSchema :: "jsval \<Rightarrow> bool"
  execute :: "jsval \<Rightarrow> GetConnectionStringFn \<Rightarrow> (js_error + ToolOutput) task"

record SierraDBServer =
  availableToolsList :: "SierraTool list"
  enabledTools :: "SierraTool list"
  enabledToolsMap :: "string \<rightharpoonup> SierraTool"

text \<open>What the file system and \<open>JSON.parse\<close> answer is a parameter.\<close>

record node_runtime =
  readFileSync :: "string \<Rightarrow> js_error + string"
  JSON_parse :: "string \<Rightarrow> js_error + jsval"

fun is_JStr :: "jsval \<Rightarrow> bool" where
  "is_JStr (JStr _) = True"
| "is_JStr _ = False"

text \<open>
  \<open>config && Array.isArray(config.enabledTools) && config.enabledTools.every(t => typeof t === 'string')\<close>,
  with the array when the test holds.
\<close>

definition config_enabledTools :: "jsval \<Rightarrow> string list option" where
  "config_enabledTools config =
     (if js_truthy config then
        (case get_prop config ''enabledTools'' of
           JArr ts \<Rightarrow> if list_all is_JStr ts then Some (map js_String ts) else None
         | _ \<Rightarrow> None)
      else None)"

definition loadAndFilterTools :: "node_runtime \<Rightarrow> ProcessOptions \<Rightarrow> SierraDBServer \<Rightarrow> SierraDBServer" where
  "loadAndFilterTools rt options srv =
     (let toolsToEnable =
        (case truthy_string (opt_toolsConfig options) of
           None \<Rightarrow> availableToolsList srv
         | Some toolsConfigPath \<Rightarrow>
             (case readFileSync rt toolsConfigPath of
                Inl error \<Rightarrow> availableToolsList srv
              | Inr configContent \<Rightarrow>
                  (case JSON_parse rt configContent of
                     Inl error \<Rightarrow> availableToolsList srv
                   | Inr config \<Rightarrow>
                       (case config_enabledTools config of
                          None \<Rightarrow> availableToolsList srv
                        | Some enabledToolNames \<Rightarrow>
                            filter (\<lambda>tool. name tool \<in> set enabledToolNames)
                              (availableToolsList srv)))))
      in srv\<lparr>enabledTools := toolsToEnable,
              enabledToolsMap := foldl (\<lambda>acc tool. acc(name tool \<mapsto> tool)) Map.empty toolsToEnable\<rparr>)"

text \<open>The constructor: \<open>new SierraDBServer(initialTools)\<close>.\<close>

definition new_SierraDBServer :: "node_runtime \<Rightarrow> ProcessOptions \<Rightarrow> SierraTool list \<Rightarrow> SierraDBServer" where
  "new_SierraDBServer rt options initialTools =
     loadAndFilterTools rt options
       \<lparr>availableToolsList = initialTools, enabledTools = [], enabledToolsMap = Map.empty\<rparr>"

text \<open>
  \<open>enabledToolsMap\<close> and \<open>transports\<close> are plain objects, and \<open>obj[key]\<close> on a plain object
  finds more than the properties stored in it: a key that is not stored is looked for on
  the prototype, and the names below are those of the members of \<open>Object.prototype\<close>, each
  a function or an object and so truthy. A lookup gives a stored value, or a truthy
  value that was inherited and is not one of the stored ones, or nothing (\<open>undefined\<close>, or
  an inherited value that is falsy).
\<close>

datatype 'a looked_up = Own 'a | Inherited | Undefined

definition Object_prototype_keys :: "string list" where
  "Object_prototype_keys =
     [''constructor'', ''__defineGetter__'', ''__defineSetter__'', ''hasOwnProperty'',
      ''__lookupGetter__'', ''__lookupSetter__'', ''isPrototypeOf'', ''propertyIsEnumerable'',
      ''toString'', ''valueOf'', ''__proto__'', ''toLocaleString'']"

text \<open>
  \<open>this.enabledToolsMap[toolName]\<close>. The map holds the tools as \<open>acc[tool.name] = tool\<close>
  stored them. For a tool named \<open>__proto__\<close> that assignment sets the prototype of the
  object: the tool is then what the key \<open>__proto__\<close> reads, and its four properties are
  inherited under their names, the two strings truthy when they are not empty.
\<close>

definition tool_lookup :: "(string \<rightharpoonup> SierraTool) \<Rightarrow> string \<Rightarrow> SierraTool looked_up" where
  "tool_lookup m key =
     (case m key of
        Some tool \<Rightarrow> Own tool
      | None \<Rightarrow>
          (case m ''__proto__'' of
             None \<Rightarrow> if key \<in> set Object_prototype_keys then Inherited else Undefined
           | Some proto \<Rightarrow>
               if key = ''name'' then (if name proto = [] then Undefined else Inherited)
               else if key = ''description''
                 then (if description proto = [] then Undefined else Inherited)
               else if key = ''inputSchema'' \<or> key = ''execute'' then Inherited
               else if key \<in> set Object_prototype_keys then Inherited
               else Undefined))"

record CallToolRequest =
  params_name :: string
  params_arguments :: jsval

definition not_enabled_message :: "SierraDBServer \<Rightarrow> string \<Rightarrow> string" where
  "not_enabled_message srv toolName =
     (let wasAvailable = list_ex (\<lambda>t. name t = toolName) (availableToolsList srv)
      in if wasAvailable
         then ''Tool '' @ [CHR 0x22] @ toolName @ [CHR 0x22] @ '' is available but not enabled by current configuration.''
         else ''Tool '' @ [CHR 0x27] @ toolName @ [CHR 0x27] @ '' is not enabled or does not exist.'')"

text \<open>
  The handler registered for \<open>CallToolRequestSchema\<close>. Its promise is what the protocol
  layer answers with: a fulfilled promise (\<open>Inr\<close>) is the \<open>result\<close> of the response, a
  rejected one (\<open>Inl\<close>) its \<open>error\<close>. When the lookup gives an inherited value, that value
  passes the test \<open>!tool\<close> and has no \<open>execute\<close>: the call \<open>tool.execute(...)\<close> throws a
  \<open>TypeError\<close>.
\<close>

definition callTool ::
  "ProcessOptions \<Rightarrow> SierraDBServer \<Rightarrow> CallToolRequest \<Rightarrow> (js_error + ToolOutput) task" where
  "callTool options srv request =
     try_catch
       (let toolName = params_name request
        in (case tool_lookup (enabledToolsMap srv) toolName of
              Undefined \<Rightarrow>
                Done (Inl (McpError MethodNotFound (not_enabled_message srv toolName)))
            | Inherited \<Rightarrow> Done (Inl (Error ''tool.execute is not a function''))
            | Own tool \<Rightarrow>
                execute tool (params_arguments request) (getConnectionString options)))
       (\<lambda>error. Done (Inr \<lparr>content = [TextContent (''Error: '' @ errorMessage error)],
                             isError = Some True\<rparr>))"

section \<open>The database analysis tool\<close>

text \<open>
  The cast \<open>args as AnalyzeDatabaseInput\<close> checks nothing: \<open>connectionString\<close> and
  \<open>analysisType\<close> are the values the arguments hold, of whatever type.
\<close>

definition AnalyzeDatabaseInputSchema :: "jsval \<Rightarrow> bool" where
  "AnalyzeDatabaseInputSchema v =
     (case v of
        JObj kvs \<Rightarrow>
          (get_prop v ''connectionString'' = JUndefined \<or> is_JStr (get_prop v ''connectionString''))
          \<and> get_prop v ''analysisType'' \<in> {JStr ''configuration'', JStr ''performance'', JStr ''security''}
      | _ \<Rightarrow> False)"

text \<open>\<open>queryOne\<close>: the first row, or null.\<close>

definition queryOne :: "sql \<Rightarrow> (js_error + row list) task" where
  "queryOne text = try_bind (await (DbQuery text)) (\<lambda>rows. Done (Inr (take 1 rows)))"

text \<open>The findings of an analysis are kept as the rows its queries returned, in order.\<close>

definition analyzeConfiguration :: "(js_error + row list list) task" where
  "analyzeConfiguration =
     try_bind (await (DbQuery SettingsQuery)) (\<lambda>settings.
     try_bind (queryOne VersionQuery) (\<lambda>version.
     Done (Inr [version, settings])))"

definition analyzePerformance :: "(js_error + row list list) task" where
  "analyzePerformance =
     try_bind (await (DbQuery TableStatsQuery)) (\<lambda>tableStats.
     try_bind (await (DbQuery IndexStatsQuery)) (\<lambda>indexStats.
     try_bind (queryOne CacheHitRatioQuery) (\<lambda>cacheHitRatio.
     try_bind (queryOne DatabaseSizeQuery) (\<lambda>databaseSize.
     Done (Inr [databaseSize, cacheHitRatio, tableStats, indexStats])))))"

definition analyzeSecurity :: "(js_error + row list list) task" where
  "analyzeSecurity =
     try_bind (await (DbQuery RolesQuery)) (\<lambda>roles.
     try_bind (await (DbQuery TablesWithoutRLSQuery)) (\<lambda>tablesWithoutRLS.
     try_bind (queryOne SslStatusQuery) (\<lambda>sslStatus.
     Done (Inr [roles, tablesWithoutRLS, sslStatus]))))"

definition destructure_error :: "jsval \<Rightarrow> js_error" where
  "destructure_error args =
     Error (''Cannot destructure property 'connectionString' of 'args' as it is ''
            @ js_String args @ ''.'')"

text \<open>
  \<open>analyzeDatabaseTool.execute\<close>. \<open>stringify\<close> stands for
  \<open>JSON.stringify(result, null, 2)\<close> of the analysis type, the time and the findings.
\<close>

definition analyzeDatabase_execute ::
  "(jsval \<Rightarrow> row list list \<Rightarrow> string) \<Rightarrow> jsval \<Rightarrow> GetConnectionStringFn
     \<Rightarrow> (js_error + ToolOutput) task" where
  "analyzeDatabase_execute stringify args getConnectionStringVal =
     (if args = JUndefined \<or> args = JNull then Done (Inl (destructure_error args))
      else
        let connStringArg = get_prop args ''connectionString'';
            analysisType = get_prop args ''analysisType''
        in (case getConnectionStringVal connStringArg of
              Inl error \<Rightarrow> Done (Inl error)
            | Inr resolvedConnString \<Rightarrow>
                bind
                  (try_catch
                     (try_bind (await (DbConnect resolvedConnString)) (\<lambda>_.
                      try_bind
                        (if analysisType = JStr ''configuration'' then analyzeConfiguration
                         else if analysisType = JStr ''performance'' then analyzePerformance
                         else if analysisType = JStr ''security'' then analyzeSecurity
                         else Done (Inl (McpError InvalidParams
                                (''Unknown analysis type: '' @ js_String analysisType))))
                        (\<lambda>findings.
                           Done (Inr \<lparr>content =
                                   [TextContent (''Database '' @ js_String analysisType
                                      @ '' analysis completed.'' @ [CHR 0x0A, CHR 0x0A]
                                      @ stringify analysisType findings)],
                                 isError = None\<rparr>))))
                     (\<lambda>error.
                        Done (Inr \<lparr>content =
                                [TextContent (''Error analyzing database: '' @ errorMessage error)],
                              isError = Some True\<rparr>)))
                  (\<lambda>result. Await DbDisconnect (\<lambda>_. Done result))))"

definition analyzeDatabaseTool :: "(jsval \<Rightarrow> row list list \<Rightarrow> string) \<Rightarrow> SierraTool" where
  "analyzeDatabaseTool stringify =
     \<lparr>name = ''sierra_analyze_database'',
      description = ''Analyze PostgreSQL database configuration and performance. analysisType can be '' @ [CHR 0x22] @ ''configuration'' @ [CHR 0x22] @ '', '' @ [CHR 0x22] @ ''performance'' @ [CHR 0x22] @ '', or '' @ [CHR 0x22] @ ''security'' @ [CHR 0x22] @ ''.'',
      inputSchema = AnalyzeDatabaseInputSchema,
      execute = analyzeDatabase_execute stringify\<rparr>"

section \<open>The HTTP transport\<close>

text \<open>
  \<open>transports\<close> maps a session id to the transport object serving it; a transport object
  is numbered by its creation, and \<open>transport_sessionId\<close> is its \<open>sessionId\<close> property.
  A session id is what \<open>sessionIdGenerator\<close> returns, \<open>randomUUID()\<close>: a text of 36
  characters.
\<close>

typedef uuid = "{s :: string. length s = 36}"
  by (rule exI[of _ "replicate 36 (CHR ''0'')"]) simp

record http_state =
  transports :: "uuid \<rightharpoonup> nat"
  transport_sessionId :: "nat \<rightharpoonup> uuid"
  created :: nat

text \<open>
  The body of a request, as far as the handshake goes: one message or a batch (an array)
  of messages, and of each message whether it is an \<open>initialize\<close> request.
  \<open>isInitializeRequest(req.body)\<close> holds of a body that is one \<open>initialize\<close> request, and
  of no batch.
\<close>

datatype body_kind = Single bool | Batch "bool list"

abbreviation Initialize :: body_kind where
  "Initialize \<equiv> Single True"

abbreviation Other :: body_kind where
  "Other \<equiv> Single False"

fun messages :: "body_kind \<Rightarrow> bool list" where
  "messages (Single m) = [m]"
| "messages (Batch ms) = ms"

record http_request =
  mcp_session_id :: "string option"
  body :: body_kind

definition isInitializeRequest :: "http_request \<Rightarrow> bool" where
  "isInitializeRequest req = (body req = Initialize)"

text \<open>
  What the transport object does with a request handed to it: it goes on to answer the
  request, or it refuses the request at its door with an error response of its own, or it
  first starts a session (it takes an id from \<open>sessionIdGenerator\<close>, sets its \<open>sessionId\<close>
  and calls \<open>onsessioninitialized\<close>), or it closes itself (it calls \<open>onclose\<close>), or the
  call throws before a response is begun.
\<close>

datatype refusal =
    NotAcceptable
  | AlreadyInitialized
  | OnlyOneInitialization
  | NotInitialized
  | SessionIdRequired
  | SessionNotFound

datatype sdk_behaviour =
    Responds
  | Refuses refusal
  | InitializesSession uuid
  | ClosesTransport
  | Throws

datatype http_reply =
    TransportResponse nat
  | TransportRefusal nat refusal
  | BadRequest
  | InternalServerError
  | InvalidSession
  | TerminationError
  | Unanswered

definition onsessioninitialized :: "nat \<Rightarrow> uuid \<Rightarrow> http_state \<Rightarrow> http_state" where
  "onsessioninitialized transport newSessionId st =
     st\<lparr>transports := (transports st)(newSessionId \<mapsto> transport)\<rparr>"

definition onclose :: "nat \<Rightarrow> http_state \<Rightarrow> http_state" where
  "onclose transport st =
     (case transport_sessionId st transport of
        None \<Rightarrow> st
      | Some sid \<Rightarrow>
          (case transports st sid of
             None \<Rightarrow> st
           | Some _ \<Rightarrow> st\<lparr>transports := (transports st)(sid := None)\<rparr>))"

text \<open>
  \<open>await transport.handleRequest(req, res, ...)\<close> inside a \<open>try\<close> whose \<open>catch\<close> answers
  \<open>on_throw\<close>.
\<close>

definition handleRequest ::
  "sdk_behaviour \<Rightarrow> http_reply \<Rightarrow> nat \<Rightarrow> http_state \<Rightarrow> http_reply \<times> http_state" where
  "handleRequest sdk on_throw transport st =
     (case sdk of
        Responds \<Rightarrow> (TransportResponse transport, st)
      | Refuses r \<Rightarrow> (TransportRefusal transport r, st)
      | InitializesSession newSessionId \<Rightarrow>
          (TransportResponse transport,
           onsessioninitialized transport newSessionId
             (st\<lparr>transport_sessionId := (transport_sessionId st)(transport \<mapsto> newSessionId)\<rparr>))
      | ClosesTransport \<Rightarrow> (TransportResponse transport, onclose transport st)
      | Throws \<Rightarrow> (on_throw, st))"

text \<open>
  \<open>sessionId && transports[sessionId]\<close>, on the plain object \<open>transports\<close>. Its own keys are
  session ids; a header that is the name of a member of \<open>Object.prototype\<close> finds that
  member.
\<close>

definition transports_get :: "http_state \<Rightarrow> string option \<Rightarrow> nat looked_up" where
  "transports_get st sessionId =
     (case truthy_string sessionId of
        None \<Rightarrow> Undefined
      | Some key \<Rightarrow>
          if length key = 36
          then (case transports st (Abs_uuid key) of
                  Some transport \<Rightarrow> Own transport
                | None \<Rightarrow> Undefined)
          else if key \<in> set Object_prototype_keys then Inherited
          else Undefined)"

text \<open>
  The three handlers of \<open>/mcp\<close>. An inherited value is taken for a transport, and calling
  its \<open>handleRequest\<close> throws a \<open>TypeError\<close>: POST and DELETE catch it and answer 500; GET
  has no \<open>try\<close>, the promise of its handler is rejected and the program gives no answer
  (\<open>Unanswered\<close>), as when the transport throws on a GET.
\<close>

definition post_mcp :: "sdk_behaviour \<Rightarrow> http_request \<Rightarrow> http_state \<Rightarrow> http_reply \<times> http_state" where
  "post_mcp sdk req st =
     (case transports_get st (mcp_session_id req) of
        Own transport \<Rightarrow> handleRequest sdk InternalServerError transport st
      | Inherited \<Rightarrow> (InternalServerError, st)
      | Undefined \<Rightarrow>
          if truthy_string (mcp_session_id req) = None \<and> isInitializeRequest req
          then handleRequest sdk InternalServerError (created st) (st\<lparr>created := Suc (created st)\<rparr>)
          else (BadRequest, st))"

definition get_mcp :: "sdk_behaviour \<Rightarrow> http_request \<Rightarrow> http_state \<Rightarrow> http_reply \<times> http_state" where
  "get_mcp sdk req st =
     (case transports_get st (mcp_session_id req) of
        Undefined \<Rightarrow> (InvalidSession, st)
      | Inherited \<Rightarrow> (Unanswered, st)
      | Own transport \<Rightarrow> handleRequest sdk Unanswered transport st)"

definition delete_mcp :: "sdk_behaviour \<Rightarrow> http_request \<Rightarrow> http_state \<Rightarrow> http_reply \<times> http_state" where
  "delete_mcp sdk req st =
     (case transports_get st (mcp_session_id req) of
        Undefined \<Rightarrow> (InvalidSession, st)
      | Inherited \<Rightarrow> (TerminationError, st)
      | Own transport \<Rightarrow> handleRequest sdk TerminationError transport st)"

subsection \<open>The transport of the SDK\<close>

text \<open>
  The transport object is a \<open>StreamableHTTPServerTransport\<close> of the package
  \<open>@modelcontextprotocol/sdk\<close>, constructed with a \<open>sessionIdGenerator\<close>. The three
  functions below follow its methods of the same names in what they do about sessions.
  What lies outside the request's session header and body is given by \<open>sdk_env\<close>: whether
  the call throws (\<open>server.connect\<close> included), whether the transport accepts the other
  headers of the request (a POST that does not accept both \<open>application/json\<close> and
  \<open>text/event-stream\<close> is answered 406 \<open>Not Acceptable\<close>), and the id the generator
  returns when asked. \<open>sessionId\<close> is the transport's own \<open>sessionId\<close>, undefined until it
  has started a session.
\<close>

record sdk_env =
  throws :: bool
  accepts_headers :: bool
  randomUUID :: uuid

text \<open>
  \<open>validateSession\<close>: 400 \<open>Server not initialized\<close>, 400 \<open>Mcp-Session-Id header is required\<close>,
  404 \<open>Session not found\<close>, or the request passes.
\<close>

definition validateSession :: "http_request \<Rightarrow> uuid option \<Rightarrow> refusal option" where
  "validateSession req sessionId =
     (case sessionId of
        None \<Rightarrow> Some NotInitialized
      | Some sid \<Rightarrow>
          (case truthy_string (mcp_session_id req) of
             None \<Rightarrow> Some SessionIdRequired
           | Some header \<Rightarrow> if header = Rep_uuid sid then None else Some SessionNotFound))"

text \<open>
  \<open>handlePostRequest\<close>. A body with an \<open>initialize\<close> request among its messages is
  answered 400 \<open>Invalid Request: Server already initialized\<close> by a transport that has a
  session, and 400 \<open>Invalid Request: Only one initialization request is allowed\<close> when
  it holds more than one message; otherwise it starts the session. Any other body must
  pass \<open>validateSession\<close>.
\<close>

definition handlePostRequest :: "sdk_env \<Rightarrow> http_request \<Rightarrow> uuid option \<Rightarrow> sdk_behaviour" where
  "handlePostRequest env req sessionId =
     (if throws env then Throws
      else if \<not> accepts_headers env then Refuses NotAcceptable
      else if True \<in> set (messages (body req)) then
        (if sessionId \<noteq> None then Refuses AlreadyInitialized
         else if length (messages (body req)) > 1 then Refuses OnlyOneInitialization
         else InitializesSession (randomUUID env))
      else (case validateSession req sessionId of
              Some r \<Rightarrow> Refuses r
            | None \<Rightarrow> Responds))"

definition handleGetRequest :: "sdk_env \<Rightarrow> http_request \<Rightarrow> uuid option \<Rightarrow> sdk_behaviour" where
  "handleGetRequest env req sessionId =
     (if throws env then Throws
      else if \<not> accepts_headers env then Refuses NotAcceptable
      else (case validateSession req sessionId of
              Some r \<Rightarrow> Refuses r
            | None \<Rightarrow> Responds))"

definition handleDeleteRequest :: "sdk_env \<Rightarrow> http_request \<Rightarrow> uuid option \<Rightarrow> sdk_behaviour" where
  "handleDeleteRequest env req sessionId =
     (if throws env then Throws
      else (case validateSession req sessionId of
              Some r \<Rightarrow> Refuses r
            | None \<Rightarrow> if \<not> accepts_headers env then Refuses NotAcceptable else ClosesTransport))"

text \<open>
  An exchange: the handler of the program with the SDK's transport behind it. The
  transport that is handed the request is the one found in \<open>transports\<close>, or the one just
  constructed, whose \<open>sessionId\<close> is still undefined.
\<close>

definition this_sessionId :: "http_state \<Rightarrow> http_request \<Rightarrow> uuid option" where
  "this_sessionId st req =
     (case transports_get st (mcp_session_id req) of
        Own transport \<Rightarrow> transport_sessionId st transport
      | _ \<Rightarrow> None)"

definition post_exchange :: "sdk_env \<Rightarrow> http_request \<Rightarrow> http_state \<Rightarrow> http_reply \<times> http_state" where
  "post_exchange env req st = post_mcp (handlePostRequest env req (this_sessionId st req)) req st"

definition get_exchange :: "sdk_env \<Rightarrow> http_request \<Rightarrow> http_state \<Rightarrow> http_reply \<times> http_state" where
  "get_exchange env req st = get_mcp (handleGetRequest env req (this_sessionId st req)) req st"

definition delete_exchange :: "sdk_env \<Rightarrow> http_request \<Rightarrow> http_state \<Rightarrow> http_reply \<times> http_state" where
  "delete_exchange env req st =
     delete_mcp (handleDeleteRequest env req (this_sessionId st req)) req st"

text \<open>The states the server goes through, from the empty table \<open>transports = {}\<close>.\<close>

definition initial_http_state :: http_state where
  "initial_http_state = \<lparr>transports = Map.empty, transport_sessionId = Map.empty, created = 0\<rparr>"

inductive reachable :: "http_state \<Rightarrow> bool" where
  reachable_initial: "reachable initial_http_state"
| reachable_post: "reachable st \<Longrightarrow> reachable (snd (post_exchange env req st))"
| reachable_get: "reachable st \<Longrightarrow> reachable (snd (get_exchange env req st))"
| reachable_delete: "reachable st \<Longrightarrow> reachable (snd (delete_exchange env req st))"

text \<open>
  A transport is stored in \<open>transports\<close> by its own \<open>onsessioninitialized\<close>, under the id it
  has just taken: \<open>session_started\<close> says so of the transport a request finds.
\<close>

definition session_started :: "http_state \<Rightarrow> http_request \<Rightarrow> bool" where
  "session_started st req =
     (case transports_get st (mcp_session_id req) of
        Own transport \<Rightarrow> transport_sessionId st transport \<noteq> None
      | _ \<Rightarrow> True)"

text \<open>
  Every stored transport is stored under its own session id, and was constructed before.
\<close>

definition stored_under_own_id :: "http_state \<Rightarrow> bool" where
  "stored_under_own_id st =
     (\<forall>sid transport. transports st sid = Some transport \<longrightarrow>
        transport_sessionId st transport = Some sid \<and> transport < created st)"

section \<open>Example inputs\<close>

text \<open>
  Concrete options, driver answers and tool lists on which the theorems below are
  evaluated.
\<close>

definition example_options :: ProcessOptions where
  "example_options = \<lparr>opt_connectionString = Some ''postgresql://cli/db'',
     opt_toolsConfig = Some ''tools-config.json'', env_POSTGRES_CONNECTION_STRING = None\<rparr>"

definition example_runtime :: "jsval \<Rightarrow> node_runtime" where
  "example_runtime config =
     \<lparr>readFileSync = (\<lambda>path. if path = ''tools-config.json'' then Inr ''{}'' else Inl (Error ''ENOENT'')),
      JSON_parse = (\<lambda>text. Inr config)\<rparr>"

definition example_stringify :: "jsval \<Rightarrow> row list list \<Rightarrow> string" where
  "example_stringify analysisType findings = concat (concat findings)"

definition example_pg :: pg_driver where
  "example_pg = \<lparr>pool_connect = (\<lambda>c. None), client_query = (\<lambda>c text. Inr [js_String c])\<rparr>"

definition example_tools :: "SierraTool list" where
  "example_tools =
     [analyzeDatabaseTool example_stringify,
      (analyzeDatabaseTool example_stringify)\<lparr>name := ''sierra_monitor_database''\<rparr>]"

definition example_server :: SierraDBServer where
  "example_server =
     new_SierraDBServer
       (example_runtime (JObj [(''enabledTools'', JArr [JStr ''sierra_analyze_database''])]))
       example_options example_tools"

definition example_server_unregistered :: SierraDBServer where
  "example_server_unregistered =
     new_SierraDBServer
       (example_runtime (JObj [(''enabledTools'', JArr [JStr ''sierra_analyze_database''])]))
       example_options [analyzeDatabaseTool example_stringify]"

definition example_options_none :: ProcessOptions where
  "example_options_none = \<lparr>opt_connectionString = None,
     opt_toolsConfig = Some ''tools-config.json'', env_POSTGRES_CONNECTION_STRING = Some []\<rparr>"

definition example_call :: "string \<Rightarrow> CallToolRequest" where
  "example_call conn =
     \<lparr>params_name = ''sierra_analyze_database'',
      params_arguments = JObj [(''connectionString'', JStr conn),
                               (''analysisType'', JStr ''configuration'')]\<rparr>"

definition example_uuid :: uuid where
  "example_uuid = Abs_uuid ''3f2b8c1e-7a4d-4e5f-9b6a-0c1d2e3f4a5b''"

definition other_uuid :: uuid where
  "other_uuid = Abs_uuid ''9d8c7b6a-5e4f-4a3b-8c2d-1e0f9a8b7c6d''"

definition example_http_state :: http_state where
  "example_http_state =
     \<lparr>transports = [example_uuid \<mapsto> 0],
      transport_sessionId = [0 \<mapsto> example_uuid],
      created = 1\<rparr>"

section \<open>The allow-list of tools\<close>

lemma all_JStr: "list_all is_JStr ts \<Longrightarrow> ts = map JStr (map js_String ts)"
proof (induction ts)
  case Nil
  then show ?case by simp
next
  case (Cons a ts)
  then show ?case by (cases a) auto
qed

lemma config_enabledTools_Some:
  "config_enabledTools config = Some names \<longleftrightarrow>
     (\<exists>kvs. config = JObj kvs \<and> map_of kvs ''enabledTools'' = Some (JArr (map JStr names)))"
proof
  assume a: "config_enabledTools config = Some names"
  then obtain kvs where k: "config = JObj kvs"
    by (cases config) (auto simp: config_enabledTools_def split: if_splits)
  from a k obtain ts where t: "map_of kvs ''enabledTools'' = Some (JArr ts)"
      "list_all is_JStr ts" "names = map js_String ts"
    by (auto simp: config_enabledTools_def split: option.splits jsval.splits if_splits)
  with all_JStr[of ts] k
  show "\<exists>kvs. config = JObj kvs \<and> map_of kvs ''enabledTools'' = Some (JArr (map JStr names))"
    by auto
next
  assume "\<exists>kvs. config = JObj kvs \<and> map_of kvs ''enabledTools'' = Some (JArr (map JStr names))"
  then show "config_enabledTools config = Some names"
    by (auto simp: config_enabledTools_def list_all_iff comp_def)
qed

lemma enabledToolsMap_foldl:
  "foldl (\<lambda>acc tool. acc(name tool \<mapsto> tool)) m ts n = None \<longleftrightarrow> m n = None \<and> n \<notin> name ` set ts"
  by (induction ts arbitrary: m) auto

lemma enabledToolsMap_dom:
  "dom (enabledToolsMap (loadAndFilterTools rt options srv))
     = name ` set (enabledTools (loadAndFilterTools rt options srv))"
proof -
  have "\<And>n. (enabledToolsMap (loadAndFilterTools rt options srv) n = None)
          = (n \<notin> name ` set (enabledTools (loadAndFilterTools rt options srv)))"
    by (simp add: loadAndFilterTools_def Let_def enabledToolsMap_foldl)
  then show ?thesis by (auto simp: dom_def)
qed

text \<open>
  C10. Without \<open>--tools-config\<close> every registered tool is enabled. When it names a
  file, the filter is applied only if the file is read,
  parses as JSON and holds an \<open>enabledTools\<close> array of strings: then the enabled tools are
  the registered tools whose name is in the array, in registration order. If the file
  cannot be read, is not JSON, or has no such array, every registered tool is enabled.
  The names stored in \<open>enabledToolsMap\<close> are those of the enabled tools.
\<close>

theorem tools_config_fails_open:
  "(truthy_string (opt_toolsConfig options) = None \<longrightarrow>
      enabledTools (loadAndFilterTools rt options srv) = availableToolsList srv)
   \<and> (\<forall>path. truthy_string (opt_toolsConfig options) = Some path \<longrightarrow>
         (\<forall>e. readFileSync rt path = Inl e \<longrightarrow>
            enabledTools (loadAndFilterTools rt options srv) = availableToolsList srv)
       \<and> (\<forall>text e. readFileSync rt path = Inr text \<longrightarrow> JSON_parse rt text = Inl e \<longrightarrow>
            enabledTools (loadAndFilterTools rt options srv) = availableToolsList srv)
       \<and> (\<forall>text config. readFileSync rt path = Inr text \<longrightarrow> JSON_parse rt text = Inr config \<longrightarrow>
            \<not> (\<exists>kvs names. config = JObj kvs
                  \<and> map_of kvs ''enabledTools'' = Some (JArr (map JStr names))) \<longrightarrow>
            enabledTools (loadAndFilterTools rt options srv) = availableToolsList srv)
       \<and> (\<forall>text kvs names. readFileSync rt path = Inr text \<longrightarrow>
            JSON_parse rt text = Inr (JObj kvs) \<longrightarrow>
            map_of kvs ''enabledTools'' = Some (JArr (map JStr names)) \<longrightarrow>
            enabledTools (loadAndFilterTools rt options srv)
              = filter (\<lambda>tool. name tool \<in> set names) (availableToolsList srv)))
   \<and> dom (enabledToolsMap (loadAndFilterTools rt options srv))
        = name ` set (enabledTools (loadAndFilterTools rt options srv))"
proof (intro conjI allI impI)
  assume "truthy_string (opt_toolsConfig options) = None"
  then show "enabledTools (loadAndFilterTools rt options srv) = availableToolsList srv"
    by (simp add: loadAndFilterTools_def Let_def)
next
  fix path e
  assume "truthy_string (opt_toolsConfig options) = Some path" "readFileSync rt path = Inl e"
  then show "enabledTools (loadAndFilterTools rt options srv) = availableToolsList srv"
    by (simp add: loadAndFilterTools_def Let_def)
next
  fix path body e
  assume "truthy_string (opt_toolsConfig options) = Some path"
    "readFileSync rt path = Inr body" "JSON_parse rt body = Inl e"
  then show "enabledTools (loadAndFilterTools rt options srv) = availableToolsList srv"
    by (simp add: loadAndFilterTools_def Let_def)
next
  fix path body config
  assume r: "truthy_string (opt_toolsConfig options) = Some path"
      "readFileSync rt path = Inr body" "JSON_parse rt body = Inr config"
    and n: "\<not> (\<exists>kvs names. config = JObj kvs
                  \<and> map_of kvs ''enabledTools'' = Some (JArr (map JStr names)))"
  have "config_enabledTools config = None"
  proof (cases "config_enabledTools config")
    case None
    then show ?thesis .
  next
    case (Some names)
    with config_enabledTools_Some[of config names] n show ?thesis by blast
  qed
  with r show "enabledTools (loadAndFilterTools rt options srv) = availableToolsList srv"
    by (simp add: loadAndFilterTools_def Let_def)
next
  fix path body kvs names
  assume r: "truthy_string (opt_toolsConfig options) = Some path"
      "readFileSync rt path = Inr body" "JSON_parse rt body = Inr (JObj kvs)"
    and v: "map_of kvs ''enabledTools'' = Some (JArr (map JStr names))"
  from v have "config_enabledTools (JObj kvs) = Some names"
    using config_enabledTools_Some[of "JObj kvs" names] by simp
  with r show "enabledTools (loadAndFilterTools rt options srv)
              = filter (\<lambda>tool. name tool \<in> set names) (availableToolsList srv)"
    by (simp add: loadAndFilterTools_def Let_def)
next
  show "dom (enabledToolsMap (loadAndFilterTools rt options srv))
            = name ` set (enabledTools (loadAndFilterTools rt options srv))"
    by (rule enabledToolsMap_dom)
qed

theorem tools_config_fails_open_witness:
  "map name (enabledTools (loadAndFilterTools
       (example_runtime (JObj [(''enabledTools'', JArr [JStr ''sierra_monitor_database'', JStr ''sierra_unknown''])]))
       example_options
       \<lparr>availableToolsList = example_tools, enabledTools = [], enabledToolsMap = Map.empty\<rparr>))
     = [''sierra_monitor_database'']
   \<and> map name (enabledTools (loadAndFilterTools
       (example_runtime (JObj [(''enabledTools'', JStr ''sierra_monitor_database'')]))
       example_options
       \<lparr>availableToolsList = example_tools, enabledTools = [], enabledToolsMap = Map.empty\<rparr>))
     = [''sierra_analyze_database'', ''sierra_monitor_database'']"
proof -
  let ?srv = "\<lparr>availableToolsList = example_tools, enabledTools = [], enabledToolsMap = Map.empty\<rparr>"
  let ?kvs = "[(''enabledTools'', JArr [JStr ''sierra_monitor_database'', JStr ''sierra_unknown''])]"
  let ?bad = "JObj [(''enabledTools'', JStr ''sierra_monitor_database'')]"
  have p: "truthy_string (opt_toolsConfig example_options) = Some ''tools-config.json''"
    by (simp add: example_options_def)
  have r: "readFileSync (example_runtime c) ''tools-config.json'' = Inr ''{}''" for c
    by (simp add: example_runtime_def)
  have j: "JSON_parse (example_runtime c) ''{}'' = Inr c" for c
    by (simp add: example_runtime_def)
  have m: "map_of ?kvs ''enabledTools''
      = Some (JArr (map JStr [''sierra_monitor_database'', ''sierra_unknown'']))"
    by simp
  have n: "\<not> (\<exists>kvs names. ?bad = JObj kvs
      \<and> map_of kvs ''enabledTools'' = Some (JArr (map JStr names)))"
    by auto
  have a: "enabledTools (loadAndFilterTools (example_runtime (JObj ?kvs)) example_options ?srv)
      = filter (\<lambda>tool. name tool \<in> set [''sierra_monitor_database'', ''sierra_unknown''])
          (availableToolsList ?srv)"
    by (rule tools_config_fails_open[of example_options "example_runtime (JObj ?kvs)" ?srv,
          THEN conjunct2, THEN conjunct1, rule_format, OF p,
          THEN conjunct2, THEN conjunct2, THEN conjunct2, rule_format, OF r j m])
  have b: "enabledTools (loadAndFilterTools (example_runtime ?bad) example_options ?srv)
      = availableToolsList ?srv"
    by (rule tools_config_fails_open[of example_options "example_runtime ?bad" ?srv,
          THEN conjunct2, THEN conjunct1, rule_format, OF p,
          THEN conjunct2, THEN conjunct2, THEN conjunct1, rule_format, OF r j n])
  show ?thesis
    unfolding a b by (simp add: example_tools_def analyzeDatabaseTool_def)
qed

section \<open>Dispatch of a call\<close>

lemma run_task_bind:
  "run_task pg options (bind t f) db =
     (case run_task pg options t db of (r, db') \<Rightarrow> run_task pg options (f r) db')"
  by (induction t arbitrary: db) (auto split: prod.splits)

lemma run_task_try_catch:
  "run_task pg options (try_catch t h) db =
     (case run_task pg options t db of
        (Inl e, db') \<Rightarrow> run_task pg options (h e) db'
      | (Inr v, db') \<Rightarrow> (Inr v, db'))"
  by (simp add: try_catch_def run_task_bind split: prod.splits sum.splits)

lemma example_server_map:
  "enabledToolsMap example_server n =
     (if n = ''sierra_analyze_database'' then Some (analyzeDatabaseTool example_stringify) else None)"
  by (simp add: example_server_def new_SierraDBServer_def loadAndFilterTools_def Let_def
      example_runtime_def example_options_def config_enabledTools_def example_tools_def
      analyzeDatabaseTool_def)

lemma example_server_available:
  "map name (availableToolsList example_server) = [''sierra_analyze_database'', ''sierra_monitor_database'']"
  by (simp add: example_server_def new_SierraDBServer_def loadAndFilterTools_def Let_def
      example_tools_def analyzeDatabaseTool_def)

lemma example_server_unregistered_map:
  "enabledToolsMap example_server_unregistered n =
     (if n = ''sierra_analyze_database'' then Some (analyzeDatabaseTool example_stringify) else None)"
  by (simp add: example_server_unregistered_def new_SierraDBServer_def loadAndFilterTools_def Let_def
      example_runtime_def example_options_def config_enabledTools_def
      analyzeDatabaseTool_def)

lemma example_server_unregistered_available:
  "map name (availableToolsList example_server_unregistered) = [''sierra_analyze_database'']"
  by (simp add: example_server_unregistered_def new_SierraDBServer_def loadAndFilterTools_def Let_def
      analyzeDatabaseTool_def)

lemma list_ex_name: "list_ex (\<lambda>t. name t = n) ts \<longleftrightarrow> n \<in> set (map name ts)"
  by (induction ts) auto

lemmas task_defs = try_catch_def try_bind_def await_def queryOne_def
  analyzeConfiguration_def analyzePerformance_def analyzeSecurity_def

lemmas db_defs = exec_op_def connect_def connect_failed_def query_def disconnect_def
  js_strict_equal_def
  initial_db_def example_pg_def example_options_def

lemma example_call_task:
  "callTool example_options example_server (example_call conn) =
     try_catch (analyzeDatabase_execute example_stringify
        (JObj [(''connectionString'', JStr conn), (''analysisType'', JStr ''configuration'')])
        (getConnectionString example_options))
       (\<lambda>error. Done (Inr \<lparr>content = [TextContent (''Error: '' @ errorMessage error)],
                             isError = Some True\<rparr>))"
  by (simp add: callTool_def tool_lookup_def example_call_def example_server_map
      analyzeDatabaseTool_def)

lemma tool_lookup_Own: "m key = Some tool \<Longrightarrow> tool_lookup m key = Own tool"
  by (simp add: tool_lookup_def)

lemma tool_lookup_Undefined:
  "m key = None \<Longrightarrow> m ''__proto__'' = None \<Longrightarrow> key \<notin> set Object_prototype_keys
     \<Longrightarrow> tool_lookup m key = Undefined"
  by (simp add: tool_lookup_def)

lemma tool_lookup_Inherited:
  "m key = None \<Longrightarrow> key \<in> set Object_prototype_keys \<Longrightarrow> tool_lookup m key = Inherited"
  by (auto simp: tool_lookup_def Object_prototype_keys_def split: option.splits)

lemma tool_lookup_not_Own: "m key = None \<Longrightarrow> tool_lookup m key \<noteq> Own tool"
  by (simp add: tool_lookup_def split: option.splits)




text \<open>
  C1, as stated, at a concrete call: the arguments \<open>{analysisType: "bogus"}\<close> are not
  accepted by the schema of \<open>sierra_analyze_database\<close>, and the answer is the one the
  handler itself gives after it has connected and reached the default branch of its
  switch.
\<close>

theorem schema_validation_counterexample:
  "\<not> inputSchema (analyzeDatabaseTool example_stringify) (JObj [(''analysisType'', JStr ''bogus'')])
   \<and> enabledToolsMap example_server ''sierra_analyze_database''
       = Some (analyzeDatabaseTool example_stringify)
   \<and> fst (run_task example_pg example_options
        (callTool example_options example_server
           \<lparr>params_name = ''sierra_analyze_database'',
            params_arguments = JObj [(''analysisType'', JStr ''bogus'')]\<rparr>)
        initial_db)
     = Inr \<lparr>content = [TextContent
          ''Error analyzing database: MCP error -32602: Unknown analysis type: bogus''],
          isError = Some True\<rparr>"
  by (simp add: example_server_map analyzeDatabaseTool_def AnalyzeDatabaseInputSchema_def
      callTool_def tool_lookup_def analyzeDatabase_execute_def getConnectionString_def
      task_defs db_defs Let_def)

text \<open>
  C1, amended. For every call that names an enabled tool, dispatch hands
  \<open>request.params.arguments\<close> to the handler's \<open>execute\<close> as it came, together with
  \<open>getConnectionString\<close>, and whatever output the handler returns on them is the answer;
  the tool's \<open>inputSchema\<close> is not consulted: the same call on a server whose tool has
  any other schema is dispatched in the same way.
\<close>

theorem arguments_reach_handler_unvalidated:
  assumes "enabledToolsMap srv (params_name request) = Some tool"
  shows "callTool options srv request
       = try_catch (execute tool (params_arguments request) (getConnectionString options))
           (\<lambda>error. Done (Inr \<lparr>content = [TextContent (''Error: '' @ errorMessage error)],
                                 isError = Some True\<rparr>))
     \<and> (\<forall>pg db out db'.
           run_task pg options
             (execute tool (params_arguments request) (getConnectionString options)) db
             = (Inr out, db') \<longrightarrow>
           run_task pg options (callTool options srv request) db = (Inr out, db'))
     \<and> callTool options
         (srv\<lparr>enabledToolsMap :=
            (enabledToolsMap srv)(params_name request \<mapsto> tool\<lparr>inputSchema := schema\<rparr>)\<rparr>)
         request
       = callTool options srv request"
proof (intro conjI allI impI)
  from assms show "callTool options srv request
       = try_catch (execute tool (params_arguments request) (getConnectionString options))
           (\<lambda>error. Done (Inr \<lparr>content = [TextContent (''Error: '' @ errorMessage error)],
                                 isError = Some True\<rparr>))"
    by (simp add: callTool_def tool_lookup_def)
next
  fix pg db out db'
  assume "run_task pg options
      (execute tool (params_arguments request) (getConnectionString options)) db
      = (Inr out, db')"
  with assms show "run_task pg options (callTool options srv request) db = (Inr out, db')"
    by (simp add: callTool_def tool_lookup_def run_task_try_catch)
next
  from assms show "callTool options
         (srv\<lparr>enabledToolsMap :=
            (enabledToolsMap srv)(params_name request \<mapsto> tool\<lparr>inputSchema := schema\<rparr>)\<rparr>)
         request
       = callTool options srv request"
    by (simp add: callTool_def tool_lookup_def)
qed

theorem arguments_reach_handler_unvalidated_witness:
  "callTool example_options example_server
     \<lparr>params_name = ''sierra_analyze_database'',
      params_arguments = JObj [(''analysisType'', JStr ''bogus'')]\<rparr>
   = try_catch
       (analyzeDatabase_execute example_stringify (JObj [(''analysisType'', JStr ''bogus'')])
          (getConnectionString example_options))
       (\<lambda>error. Done (Inr \<lparr>content = [TextContent (''Error: '' @ errorMessage error)],
                             isError = Some True\<rparr>))"
proof -
  let ?req = "\<lparr>params_name = ''sierra_analyze_database'',
      params_arguments = JObj [(''analysisType'', JStr ''bogus'')]\<rparr>"
  have e: "enabledToolsMap example_server (params_name ?req)
      = Some (analyzeDatabaseTool example_stringify)"
    by (simp add: example_server_map)
  show ?thesis
    using arguments_reach_handler_unvalidated[OF e, of example_options, THEN conjunct1]
    by (simp add: analyzeDatabaseTool_def)
qed

text \<open>
  C2, as stated, at a concrete call: for a name that no registry holds, the promise of the
  handler is fulfilled with an output whose \<open>isError\<close> is true; it is not rejected.
\<close>

theorem unknown_operation_counterexample:
  \<open>callTool example_options example_server
     \<lparr>params_name = ''does_not_exist'', params_arguments = JObj []\<rparr>
   = Done (Inr \<lparr>content = [TextContent
        ''Error: MCP error -32601: Tool 'does_not_exist' is not enabled or does not exist.''],
        isError = Some True\<rparr>)\<close>
  by (simp add: callTool_def tool_lookup_def Object_prototype_keys_def try_catch_def
      example_server_map not_enabled_message_def list_ex_name example_server_available)

text \<open>
  C2, amended. For every call whose tool name is not among the enabled tools of the
  server, whether or not the name is registered, and is not the name of a member of
  \<open>Object.prototype\<close> (no tool being named \<open>__proto__\<close>), the \<open>McpError\<close> with code
  \<open>MethodNotFound\<close> is caught by the handler itself and the call is answered with a
  fulfilled promise: an output with \<open>isError = true\<close> and the single text part
  \<open>Error: MCP error -32601: \<close> followed by \<open>Tool "name" is available but not enabled by
  current configuration.\<close> for a registered name and by \<open>Tool 'name' is not enabled or does
  not exist.\<close> for any other.
\<close>

theorem unknown_operation_is_error_output:
  assumes "srv = loadAndFilterTools rt options srv0"
    and "params_name request \<notin> name ` set (enabledTools srv)"
    and "params_name request \<notin> set Object_prototype_keys"
    and "''__proto__'' \<notin> name ` set (enabledTools srv)"
  shows \<open>callTool options srv request
     = Done (Inr \<lparr>content = [TextContent (''Error: MCP error -32601: ''
                @ (if params_name request \<in> name ` set (availableToolsList srv)
                   then ''Tool '' @ [CHR 0x22] @ params_name request @ [CHR 0x22]
                        @ '' is available but not enabled by current configuration.''
                   else ''Tool '' @ [CHR 0x27] @ params_name request @ [CHR 0x27]
                        @ '' is not enabled or does not exist.''))],
              isError = Some True\<rparr>)\<close>
proof -
  from assms(1,2) have "params_name request \<notin> dom (enabledToolsMap srv)"
    by (simp add: enabledToolsMap_dom)
  then have a: "enabledToolsMap srv (params_name request) = None"
    by (simp add: dom_def)
  from assms(1,4) have "''__proto__'' \<notin> dom (enabledToolsMap srv)"
    by (simp add: enabledToolsMap_dom)
  then have b: "enabledToolsMap srv ''__proto__'' = None"
    by (simp add: dom_def)
  from a b assms(3) have "tool_lookup (enabledToolsMap srv) (params_name request) = Undefined"
    by (rule tool_lookup_Undefined)
  then show ?thesis
    by (simp add: callTool_def try_catch_def not_enabled_message_def list_ex_name)
qed

theorem unknown_operation_is_error_output_witness:
  \<open>callTool example_options example_server
     \<lparr>params_name = ''sierra_monitor_database'', params_arguments = JObj []\<rparr>
   = Done (Inr \<lparr>content = [TextContent
        ''Error: MCP error -32601: Tool "sierra_monitor_database" is available but not enabled by current configuration.''],
        isError = Some True\<rparr>)\<close>
proof -
  let ?req = "\<lparr>params_name = ''sierra_monitor_database'', params_arguments = JObj []\<rparr>"
  have s: "example_server = loadAndFilterTools
      (example_runtime (JObj [(''enabledTools'', JArr [JStr ''sierra_analyze_database''])]))
      example_options
      \<lparr>availableToolsList = example_tools, enabledTools = [], enabledToolsMap = Map.empty\<rparr>"
    by (simp add: example_server_def new_SierraDBServer_def)
  have d: "dom (enabledToolsMap example_server) = {''sierra_analyze_database''}"
    by (auto simp: example_server_map dom_def)
  from d have e: "params_name ?req \<notin> name ` set (enabledTools example_server)"
    unfolding s enabledToolsMap_dom by simp
  from d have p: "''__proto__'' \<notin> name ` set (enabledTools example_server)"
    unfolding s enabledToolsMap_dom by simp
  have k: "params_name ?req \<notin> set Object_prototype_keys"
    by (simp add: Object_prototype_keys_def)
  have v: "''sierra_monitor_database'' \<in> name ` set (availableToolsList example_server)"
    using example_server_available by (simp flip: set_map)
  show ?thesis
    using unknown_operation_is_error_output[OF s e k p] v
    by simp
qed

text \<open>
  The name of a member of \<open>Object.prototype\<close> that names no enabled tool passes the test
  \<open>!tool\<close>; the call of its \<open>execute\<close> throws, and the answer is that of a failed handler.
\<close>

lemma inherited_name_is_called:
  assumes "enabledToolsMap srv (params_name request) = None"
    and "params_name request \<in> set Object_prototype_keys"
  shows "callTool options srv request
     = Done (Inr \<lparr>content = [TextContent ''Error: tool.execute is not a function''],
              isError = Some True\<rparr>)"
  using tool_lookup_Inherited[of "enabledToolsMap srv" "params_name request", OF assms] by (simp add: callTool_def try_catch_def)

lemma inherited_name_example:
  "callTool example_options example_server
     \<lparr>params_name = ''toString'', params_arguments = JObj []\<rparr>
   = Done (Inr \<lparr>content = [TextContent ''Error: tool.execute is not a function''],
            isError = Some True\<rparr>)"
  by (rule inherited_name_is_called)
    (simp_all add: example_server_map Object_prototype_keys_def)

text \<open>
  C3, as stated, at two concrete servers with the same enabled tools: on the one
  \<open>sierra_monitor_database\<close> is registered and left out by the configuration, on the other
  it is not registered. The two answers to the client differ.
\<close>

theorem uniform_not_found_counterexample:
  \<open>callTool example_options example_server
     \<lparr>params_name = ''sierra_monitor_database'', params_arguments = JObj []\<rparr>
   = Done (Inr \<lparr>content = [TextContent
        ''Error: MCP error -32601: Tool "sierra_monitor_database" is available but not enabled by current configuration.''],
        isError = Some True\<rparr>)
   \<and> callTool example_options example_server_unregistered
     \<lparr>params_name = ''sierra_monitor_database'', params_arguments = JObj []\<rparr>
   = Done (Inr \<lparr>content = [TextContent
        ''Error: MCP error -32601: Tool 'sierra_monitor_database' is not enabled or does not exist.''],
        isError = Some True\<rparr>)
   \<and> enabledTools example_server = enabledTools example_server_unregistered\<close>
  by (simp add: callTool_def tool_lookup_def Object_prototype_keys_def try_catch_def
      example_server_map example_server_unregistered_map
      not_enabled_message_def list_ex_name example_server_available
      example_server_unregistered_available)
    (simp add: example_server_def example_server_unregistered_def new_SierraDBServer_def
      loadAndFilterTools_def Let_def example_runtime_def example_options_def
      config_enabledTools_def example_tools_def analyzeDatabaseTool_def)

text \<open>
  C3, amended. The message sent to the client depends on the registration of the name.
  Of a name that is not enabled and is not the name of a member of \<open>Object.prototype\<close> (no
  tool being named \<open>__proto__\<close>): when it is registered the answer is
  \<open>Tool "name" is available but not enabled by current configuration.\<close>, when it is not
  registered \<open>Tool 'name' is not enabled or does not exist.\<close>; so two servers that differ
  only in this give different answers.
\<close>

theorem not_found_message_tells_registration:
  assumes "enabledToolsMap srv1 toolName = None" and "enabledToolsMap srv2 toolName = None"
    and "toolName \<in> name ` set (availableToolsList srv1)"
    and "toolName \<notin> name ` set (availableToolsList srv2)"
    and "toolName \<notin> set Object_prototype_keys"
    and "enabledToolsMap srv1 ''__proto__'' = None"
    and "enabledToolsMap srv2 ''__proto__'' = None"
  shows \<open>callTool options srv1 \<lparr>params_name = toolName, params_arguments = args\<rparr>
       = Done (Inr \<lparr>content = [TextContent (''Error: MCP error -32601: Tool '' @ [CHR 0x22]
                @ toolName @ [CHR 0x22] @ '' is available but not enabled by current configuration.'')],
              isError = Some True\<rparr>)
     \<and> callTool options srv2 \<lparr>params_name = toolName, params_arguments = args\<rparr>
       = Done (Inr \<lparr>content = [TextContent (''Error: MCP error -32601: Tool '' @ [CHR 0x27]
                @ toolName @ [CHR 0x27] @ '' is not enabled or does not exist.'')],
              isError = Some True\<rparr>)
     \<and> callTool options srv1 \<lparr>params_name = toolName, params_arguments = args\<rparr>
       \<noteq> callTool options srv2 \<lparr>params_name = toolName, params_arguments = args\<rparr>\<close>
proof -
  have a: "tool_lookup (enabledToolsMap srv1) toolName = Undefined"
    using assms(1,6,5) by (rule tool_lookup_Undefined)
  have b: "tool_lookup (enabledToolsMap srv2) toolName = Undefined"
    using assms(2,7,5) by (rule tool_lookup_Undefined)
  from a b assms(3,4) show ?thesis
    by (simp add: callTool_def try_catch_def not_enabled_message_def list_ex_name)
qed

theorem not_found_message_tells_registration_witness:
  "callTool example_options example_server
     \<lparr>params_name = ''sierra_monitor_database'', params_arguments = JNull\<rparr>
   \<noteq> callTool example_options example_server_unregistered
     \<lparr>params_name = ''sierra_monitor_database'', params_arguments = JNull\<rparr>"
proof -
  have a: "enabledToolsMap example_server ''sierra_monitor_database'' = None"
    by (simp add: example_server_map)
  have b: "enabledToolsMap example_server_unregistered ''sierra_monitor_database'' = None"
    by (simp add: example_server_unregistered_map)
  have c: "''sierra_monitor_database'' \<in> name ` set (availableToolsList example_server)"
    using example_server_available by (simp flip: set_map)
  have d: "''sierra_monitor_database''
      \<notin> name ` set (availableToolsList example_server_unregistered)"
    using example_server_unregistered_available by (simp flip: set_map)
  have k: "''sierra_monitor_database'' \<notin> set Object_prototype_keys"
    by (simp add: Object_prototype_keys_def)
  have p: "enabledToolsMap example_server ''__proto__'' = None"
    by (simp add: example_server_map)
  have q: "enabledToolsMap example_server_unregistered ''__proto__'' = None"
    by (simp add: example_server_unregistered_map)
  show ?thesis
    by (rule not_found_message_tells_registration[OF a b c d k p q, of example_options JNull,
          THEN conjunct2, THEN conjunct2])
qed

section \<open>The connection string of a call\<close>

text \<open>
  C8, as stated, at a concrete input: a per-call \<open>connectionString\<close> that is present and
  empty is not used; the resolver returns the value of \<open>--connection-string\<close>.
\<close>

theorem connection_string_precedence_counterexample:
  "getConnectionString example_options (JStr []) = Inr (JStr ''postgresql://cli/db'')"
  by (simp add: getConnectionString_def example_options_def)

text \<open>
  C8, amended. The resolver returns the per-call \<open>connectionString\<close> argument if it is
  present and not empty (any value but \<open>undefined\<close>, \<open>null\<close>, \<open>false\<close>, \<open>0\<close> and the empty
  string); otherwise the value of \<open>--connection-string\<close> if not empty; otherwise
  \<open>POSTGRES_CONNECTION_STRING\<close> if not empty; and when none of them is, it fails with the
  \<open>McpError\<close> that says where a connection string can be given. This resolver is what
  dispatch hands to the handler of every enabled tool, and when a handler lets the
  failure of the resolver through, the call is answered with an error output carrying
  that message. The analysis tool connects to what the resolver returns for the
  \<open>connectionString\<close> of its arguments, and lets its failure through.
\<close>

theorem connection_string_precedence:
  "(\<forall>s. s \<noteq> [] \<longrightarrow> getConnectionString options (JStr s) = Inr (JStr s))
   \<and> (connectionStringArg \<notin> set [JUndefined, JNull, JBool False, JNum ''0'', JStr []] \<longrightarrow>
        getConnectionString options connectionStringArg = Inr connectionStringArg)
   \<and> (\<forall>c. connectionStringArg \<in> set [JUndefined, JNull, JBool False, JNum ''0'', JStr []] \<longrightarrow>
        opt_connectionString options = Some c \<longrightarrow> c \<noteq> [] \<longrightarrow>
        getConnectionString options connectionStringArg = Inr (JStr c))
   \<and> (\<forall>e. connectionStringArg \<in> set [JUndefined, JNull, JBool False, JNum ''0'', JStr []] \<longrightarrow>
        (opt_connectionString options = None \<or> opt_connectionString options = Some []) \<longrightarrow>
        env_POSTGRES_CONNECTION_STRING options = Some e \<longrightarrow> e \<noteq> [] \<longrightarrow>
        getConnectionString options connectionStringArg = Inr (JStr e))
   \<and> (connectionStringArg \<in> set [JUndefined, JNull, JBool False, JNum ''0'', JStr []] \<longrightarrow>
        (opt_connectionString options = None \<or> opt_connectionString options = Some []) \<longrightarrow>
        (env_POSTGRES_CONNECTION_STRING options = None
           \<or> env_POSTGRES_CONNECTION_STRING options = Some []) \<longrightarrow>
        getConnectionString options connectionStringArg
          = Inl (McpError InvalidParams
              ''No connection string provided. Provide one in the tool arguments, via the --connection-string CLI option, or set the POSTGRES_CONNECTION_STRING environment variable.''))
   \<and> (\<forall>srv request tool.
        enabledToolsMap srv (params_name request) = Some tool \<longrightarrow>
        callTool options srv request
          = try_catch (execute tool (params_arguments request) (getConnectionString options))
              (\<lambda>error. Done (Inr \<lparr>content = [TextContent (''Error: '' @ errorMessage error)],
                                    isError = Some True\<rparr>)))
   \<and> (\<forall>srv request tool pg db db' error.
        enabledToolsMap srv (params_name request) = Some tool \<longrightarrow>
        getConnectionString options connectionStringArg = Inl error \<longrightarrow>
        run_task pg options
          (execute tool (params_arguments request) (getConnectionString options)) db
          = (Inl error, db') \<longrightarrow>
        run_task pg options (callTool options srv request) db
          = (Inr \<lparr>content = [TextContent
               ''Error: MCP error -32602: No connection string provided. Provide one in the tool arguments, via the --connection-string CLI option, or set the POSTGRES_CONNECTION_STRING environment variable.''],
               isError = Some True\<rparr>, db'))
   \<and> (\<forall>srv toolName stringify args resolved.
        enabledToolsMap srv toolName = Some (analyzeDatabaseTool stringify) \<longrightarrow>
        args \<noteq> JUndefined \<longrightarrow> args \<noteq> JNull \<longrightarrow>
        getConnectionString options (get_prop args ''connectionString'') = Inr resolved \<longrightarrow>
        (\<exists>k. callTool options srv \<lparr>params_name = toolName, params_arguments = args\<rparr>
               = Await (DbConnect resolved) k))
   \<and> (\<forall>srv toolName stringify args error.
        enabledToolsMap srv toolName = Some (analyzeDatabaseTool stringify) \<longrightarrow>
        args \<noteq> JUndefined \<longrightarrow> args \<noteq> JNull \<longrightarrow>
        getConnectionString options (get_prop args ''connectionString'') = Inl error \<longrightarrow>
        callTool options srv \<lparr>params_name = toolName, params_arguments = args\<rparr>
          = Done (Inr \<lparr>content = [TextContent
               ''Error: MCP error -32602: No connection string provided. Provide one in the tool arguments, via the --connection-string CLI option, or set the POSTGRES_CONNECTION_STRING environment variable.''],
               isError = Some True\<rparr>))"
proof -
  have only_error: "error = McpError InvalidParams no_connection_string"
    if "getConnectionString options a = Inl error" for a error
    using that by (auto simp: getConnectionString_def split: if_splits option.splits)
  have truthy: "js_truthy a \<longleftrightarrow> a \<notin> set [JUndefined, JNull, JBool False, JNum ''0'', JStr []]"
    for a
    by (cases a) auto
  show ?thesis
  proof (intro conjI allI impI)
    fix s :: string assume "s \<noteq> []"
    then show "getConnectionString options (JStr s) = Inr (JStr s)"
      by (simp add: getConnectionString_def)
  next
    assume "connectionStringArg \<notin> set [JUndefined, JNull, JBool False, JNum ''0'', JStr []]"
    with truthy[of connectionStringArg] have "js_truthy connectionStringArg" by blast
    then show "getConnectionString options connectionStringArg = Inr connectionStringArg"
      by (simp add: getConnectionString_def)
  next
    fix c
    assume "connectionStringArg \<in> set [JUndefined, JNull, JBool False, JNum ''0'', JStr []]"
      and o: "opt_connectionString options = Some c" "c \<noteq> []"
    with truthy[of connectionStringArg] have "\<not> js_truthy connectionStringArg" by blast
    with o show "getConnectionString options connectionStringArg = Inr (JStr c)"
      by (simp add: getConnectionString_def)
  next
    fix e
    assume "connectionStringArg \<in> set [JUndefined, JNull, JBool False, JNum ''0'', JStr []]"
      and o: "opt_connectionString options = None \<or> opt_connectionString options = Some []"
        "env_POSTGRES_CONNECTION_STRING options = Some e" "e \<noteq> []"
    with truthy[of connectionStringArg] have "\<not> js_truthy connectionStringArg" by blast
    with o show "getConnectionString options connectionStringArg = Inr (JStr e)"
      by (auto simp: getConnectionString_def)
  next
    assume "connectionStringArg \<in> set [JUndefined, JNull, JBool False, JNum ''0'', JStr []]"
      and o: "opt_connectionString options = None \<or> opt_connectionString options = Some []"
        "env_POSTGRES_CONNECTION_STRING options = None
           \<or> env_POSTGRES_CONNECTION_STRING options = Some []"
    with truthy[of connectionStringArg] have "\<not> js_truthy connectionStringArg" by blast
    with o show "getConnectionString options connectionStringArg
          = Inl (McpError InvalidParams
              ''No connection string provided. Provide one in the tool arguments, via the --connection-string CLI option, or set the POSTGRES_CONNECTION_STRING environment variable.'')"
      by (auto simp: getConnectionString_def no_connection_string_def)
  next
    fix srv :: SierraDBServer and request :: CallToolRequest and tool
    assume "enabledToolsMap srv (params_name request) = Some tool"
    then show "callTool options srv request
          = try_catch (execute tool (params_arguments request) (getConnectionString options))
              (\<lambda>error. Done (Inr \<lparr>content = [TextContent (''Error: '' @ errorMessage error)],
                                    isError = Some True\<rparr>))"
      by (simp add: callTool_def tool_lookup_Own)
  next
    fix srv :: SierraDBServer and request :: CallToolRequest and tool pg db db' error
    assume e: "enabledToolsMap srv (params_name request) = Some tool"
      and g: "getConnectionString options connectionStringArg = Inl error"
      and r: "run_task pg options
          (execute tool (params_arguments request) (getConnectionString options)) db
          = (Inl error, db')"
    from only_error[OF g] e r
    show "run_task pg options (callTool options srv request) db
          = (Inr \<lparr>content = [TextContent
               ''Error: MCP error -32602: No connection string provided. Provide one in the tool arguments, via the --connection-string CLI option, or set the POSTGRES_CONNECTION_STRING environment variable.''],
               isError = Some True\<rparr>, db')"
      by (simp add: callTool_def tool_lookup_Own run_task_try_catch no_connection_string_def)
  next
    fix srv :: SierraDBServer and toolName stringify args resolved
    assume "enabledToolsMap srv toolName = Some (analyzeDatabaseTool stringify)"
      "args \<noteq> JUndefined" "args \<noteq> JNull"
      "getConnectionString options (get_prop args ''connectionString'') = Inr resolved"
    then show "\<exists>k. callTool options srv \<lparr>params_name = toolName, params_arguments = args\<rparr>
               = Await (DbConnect resolved) k"
      by (simp add: callTool_def tool_lookup_Own analyzeDatabaseTool_def
          analyzeDatabase_execute_def Let_def try_catch_def try_bind_def await_def)
  next
    fix srv :: SierraDBServer and toolName stringify args error
    assume e: "enabledToolsMap srv toolName = Some (analyzeDatabaseTool stringify)"
      "args \<noteq> JUndefined" "args \<noteq> JNull"
      and g: "getConnectionString options (get_prop args ''connectionString'') = Inl error"
    from only_error[OF g] e g
    show "callTool options srv \<lparr>params_name = toolName, params_arguments = args\<rparr>
          = Done (Inr \<lparr>content = [TextContent
               ''Error: MCP error -32602: No connection string provided. Provide one in the tool arguments, via the --connection-string CLI option, or set the POSTGRES_CONNECTION_STRING environment variable.''],
               isError = Some True\<rparr>)"
      by (simp add: callTool_def tool_lookup_Own analyzeDatabaseTool_def
          analyzeDatabase_execute_def Let_def try_catch_def no_connection_string_def)
  qed
qed

theorem connection_string_precedence_witness:
  "getConnectionString example_options (JStr ''postgresql://tenant/db'')
     = Inr (JStr ''postgresql://tenant/db'')
   \<and> getConnectionString example_options (JNum ''123'') = Inr (JNum ''123'')
   \<and> getConnectionString example_options JUndefined = Inr (JStr ''postgresql://cli/db'')
   \<and> callTool example_options_none example_server
       \<lparr>params_name = ''sierra_analyze_database'',
        params_arguments = JObj [(''analysisType'', JStr ''security'')]\<rparr>
     = Done (Inr \<lparr>content = [TextContent
          ''Error: MCP error -32602: No connection string provided. Provide one in the tool arguments, via the --connection-string CLI option, or set the POSTGRES_CONNECTION_STRING environment variable.''],
          isError = Some True\<rparr>)"
proof -
  let ?args = "JObj [(''analysisType'', JStr ''security'')]"
  have a: "getConnectionString example_options (JStr ''postgresql://tenant/db'')
      = Inr (JStr ''postgresql://tenant/db'')"
    using connection_string_precedence[of example_options JUndefined,
        THEN conjunct1, rule_format, of "''postgresql://tenant/db''"]
    by simp
  have b: "getConnectionString example_options (JNum ''123'') = Inr (JNum ''123'')"
    using connection_string_precedence[of example_options "JNum ''123''",
        THEN conjunct2, THEN conjunct1]
    by simp
  have c: "getConnectionString example_options JUndefined = Inr (JStr ''postgresql://cli/db'')"
    using connection_string_precedence[of example_options JUndefined,
        THEN conjunct2, THEN conjunct2, THEN conjunct1, rule_format,
        of "''postgresql://cli/db''"]
    by (simp add: example_options_def)
  have n: "getConnectionString example_options_none (get_prop ?args ''connectionString'')
      = Inl (McpError InvalidParams
          ''No connection string provided. Provide one in the tool arguments, via the --connection-string CLI option, or set the POSTGRES_CONNECTION_STRING environment variable.'')"
    using connection_string_precedence[of example_options_none JUndefined,
        THEN conjunct2, THEN conjunct2, THEN conjunct2, THEN conjunct2, THEN conjunct1]
    by (simp add: example_options_none_def)
  have e: "enabledToolsMap example_server ''sierra_analyze_database''
      = Some (analyzeDatabaseTool example_stringify)"
    by (simp add: example_server_map)
  have d: "callTool example_options_none example_server
       \<lparr>params_name = ''sierra_analyze_database'', params_arguments = ?args\<rparr>
     = Done (Inr \<lparr>content = [TextContent
          ''Error: MCP error -32602: No connection string provided. Provide one in the tool arguments, via the --connection-string CLI option, or set the POSTGRES_CONNECTION_STRING environment variable.''],
          isError = Some True\<rparr>)"
    using connection_string_precedence[of example_options_none JUndefined,
        THEN conjunct2, THEN conjunct2, THEN conjunct2, THEN conjunct2, THEN conjunct2,
        THEN conjunct2, THEN conjunct2, THEN conjunct2, rule_format, OF e _ _ n]
    by simp
  from a b c d show ?thesis by blast
qed

section \<open>Two calls in flight\<close>

text \<open>
  C9 at a concrete pair of calls. Each of the two analysis calls, run alone, reports the
  rows of its own database. Interleaved at their awaits (the first connects and queries
  the settings, the second connects, the first queries the version and disconnects, the
  second goes on), the first call reports a row of the second call's database and the
  second fails with \<open>Not connected to database\<close>: both work on the one shared
  \<open>DatabaseConnection\<close>. Two calls on the same database interfere as well: the second
  finds the connection open, and loses it when the first disconnects.
\<close>

theorem concurrent_calls_interfere:
  "fst (run_task example_pg example_options
          (callTool example_options example_server (example_call ''postgresql://tenant-a/db''))
          initial_db)
     = Inr \<lparr>content = [TextContent
          ''Database configuration analysis completed.\<newline>\<newline>postgresql://tenant-a/dbpostgresql://tenant-a/db''],
          isError = None\<rparr>
   \<and> fst (run_task example_pg example_options
          (callTool example_options example_server (example_call ''postgresql://tenant-b/db''))
          initial_db)
     = Inr \<lparr>content = [TextContent
          ''Database configuration analysis completed.\<newline>\<newline>postgresql://tenant-b/dbpostgresql://tenant-b/db''],
          isError = None\<rparr>
   \<and> interleave example_pg example_options [True, True, False, True, True, False, False]
          (callTool example_options example_server (example_call ''postgresql://tenant-a/db''))
          (callTool example_options example_server (example_call ''postgresql://tenant-b/db''))
          initial_db
     = (Done (Inr \<lparr>content = [TextContent
          ''Database configuration analysis completed.\<newline>\<newline>postgresql://tenant-b/dbpostgresql://tenant-a/db''],
          isError = None\<rparr>),
        Done (Inr \<lparr>content = [TextContent
          ''Error analyzing database: Not connected to database''],
          isError = Some True\<rparr>),
        \<lparr>pool = Some (JStr ''postgresql://tenant-b/db''), client = None,
         connectionString = JStr [], lastError = None,
         poolCache = {JStr ''postgresql://tenant-b/db'', JStr ''postgresql://tenant-a/db''}\<rparr>)
   \<and> interleave example_pg example_options [True, False, True, True, True, False, False]
          (callTool example_options example_server (example_call ''postgresql://tenant-a/db''))
          (callTool example_options example_server (example_call ''postgresql://tenant-a/db''))
          initial_db
     = (Done (Inr \<lparr>content = [TextContent
          ''Database configuration analysis completed.\<newline>\<newline>postgresql://tenant-a/dbpostgresql://tenant-a/db''],
          isError = None\<rparr>),
        Done (Inr \<lparr>content = [TextContent
          ''Error analyzing database: Not connected to database''],
          isError = Some True\<rparr>),
        \<lparr>pool = Some (JStr ''postgresql://tenant-a/db''), client = None,
         connectionString = JStr [], lastError = None,
         poolCache = {JStr ''postgresql://tenant-a/db''}\<rparr>)"
  unfolding example_call_task
  by (simp add: analyzeDatabase_execute_def getConnectionString_def
      task_defs db_defs Let_def example_stringify_def insert_commute)

section \<open>Sessions of the HTTP transport\<close>

lemma Rep_uuid_length: "length (Rep_uuid sid) = 36"
  using Rep_uuid[of sid] by simp

lemma Rep_uuid_not_Nil: "Rep_uuid sid \<noteq> []" "[] \<noteq> Rep_uuid sid"
  using Rep_uuid_length[of sid] by auto

lemma Rep_uuid_not_inherited: "Rep_uuid sid \<notin> set Object_prototype_keys"
  using Rep_uuid_length[of sid] by (auto simp: Object_prototype_keys_def)

lemma Rep_example_uuid: "Rep_uuid example_uuid = ''3f2b8c1e-7a4d-4e5f-9b6a-0c1d2e3f4a5b''"
  by (simp add: example_uuid_def Abs_uuid_inverse)

lemma Rep_other_uuid: "Rep_uuid other_uuid = ''9d8c7b6a-5e4f-4a3b-8c2d-1e0f9a8b7c6d''"
  by (simp add: other_uuid_def Abs_uuid_inverse)

lemma example_uuids_differ: "example_uuid \<noteq> other_uuid" "other_uuid \<noteq> example_uuid"
  by (simp_all add: example_uuid_def other_uuid_def Abs_uuid_inject)

lemma transports_get_uuid:
  "transports_get st (Some (Rep_uuid sid))
     = (case transports st sid of Some transport \<Rightarrow> Own transport | None \<Rightarrow> Undefined)"
  by (simp add: transports_get_def Rep_uuid_length Rep_uuid_not_Nil Rep_uuid_inverse)

lemma transports_get_no_token:
  "sessionId = None \<or> sessionId = Some [] \<Longrightarrow> transports_get st sessionId = Undefined"
  by (auto simp: transports_get_def)

lemma transports_get_Own:
  "transports_get st sessionId = Own transport \<longleftrightarrow>
     (\<exists>sid. sessionId = Some (Rep_uuid sid) \<and> transports st sid = Some transport)"
proof
  assume a: "transports_get st sessionId = Own transport"
  then obtain key where k: "sessionId = Some key" "length key = 36"
      "transports st (Abs_uuid key) = Some transport"
    by (cases sessionId) (auto simp: transports_get_def split: if_splits option.splits)
  from k(2) have "Rep_uuid (Abs_uuid key) = key" by (simp add: Abs_uuid_inverse)
  with k show "\<exists>sid. sessionId = Some (Rep_uuid sid) \<and> transports st sid = Some transport"
    by metis
next
  assume "\<exists>sid. sessionId = Some (Rep_uuid sid) \<and> transports st sid = Some transport"
  then show "transports_get st sessionId = Own transport"
    by (auto simp: transports_get_uuid)
qed

lemma transports_get_Inherited:
  "transports_get st sessionId = Inherited \<longleftrightarrow>
     (\<exists>key. sessionId = Some key \<and> key \<in> set Object_prototype_keys)"
  by (cases sessionId)
    (auto simp: transports_get_def Object_prototype_keys_def split: option.splits)

lemma transports_get_Undefined:
  assumes "sessionId = Some key" and "key \<notin> set Object_prototype_keys"
    and "\<forall>sid. key = Rep_uuid sid \<longrightarrow> transports st sid = None"
  shows "transports_get st sessionId = Undefined"
proof (cases "transports_get st sessionId")
  case (Own transport)
  with assms show ?thesis by (auto simp: transports_get_Own)
next
  case Inherited
  with assms show ?thesis by (auto simp: transports_get_Inherited)
next
  case Undefined
  then show ?thesis .
qed

lemma handlePostRequest_started:
  "snd (handleRequest (handlePostRequest env req (Some sid)) r t st) = st"
  by (auto simp: handleRequest_def handlePostRequest_def split: option.splits)

lemma handleGetRequest_no_session:
  "snd (handleRequest (handleGetRequest env req sessionId) r t st) = st"
  by (auto simp: handleRequest_def handleGetRequest_def split: option.splits)

lemma this_sessionId_Own:
  "transports_get st (mcp_session_id req) = Own transport
     \<Longrightarrow> this_sessionId st req = transport_sessionId st transport"
  by (simp add: this_sessionId_def)

text \<open>The sessions of a state that the server reaches are well formed.\<close>

lemma stored_under_own_id_post:
  assumes "stored_under_own_id st"
  shows "stored_under_own_id (snd (post_exchange env req st))"
proof (cases "transports_get st (mcp_session_id req)")
  case (Own transport)
  then obtain sid where "transports st sid = Some transport"
    by (auto simp: transports_get_Own)
  with assms have "transport_sessionId st transport = Some sid"
    by (simp add: stored_under_own_id_def)
  with Own have "this_sessionId st req = Some sid" by (simp add: this_sessionId_def)
  with Own have "snd (post_exchange env req st) = st"
    by (simp add: post_exchange_def post_mcp_def handlePostRequest_started)
  with assms show ?thesis by simp
next
  case Inherited
  with assms show ?thesis by (simp add: post_exchange_def post_mcp_def)
next
  case Undefined
  then have n: "this_sessionId st req = None" by (simp add: this_sessionId_def)
  show ?thesis
  proof (cases "truthy_string (mcp_session_id req) = None \<and> isInitializeRequest req")
    case False
    with Undefined assms show ?thesis by (auto simp: post_exchange_def post_mcp_def)
  next
    case True
    with Undefined n assms show ?thesis
      by (auto simp: post_exchange_def post_mcp_def handlePostRequest_def handleRequest_def
          isInitializeRequest_def onsessioninitialized_def stored_under_own_id_def
          less_Suc_eq)
  qed
qed

lemma stored_under_own_id_get:
  assumes "stored_under_own_id st"
  shows "stored_under_own_id (snd (get_exchange env req st))"
proof -
  have "snd (get_exchange env req st) = st"
    by (simp add: get_exchange_def get_mcp_def handleGetRequest_no_session
        split: looked_up.splits)
  with assms show ?thesis by simp
qed

lemma onclose_removes:
  "transports (onclose transport st) sid = Some t \<Longrightarrow> transports st sid = Some t"
  by (auto simp: onclose_def split: option.splits if_splits)

lemma handleRequest_delete_removes:
  assumes "transports (snd (handleRequest (handleDeleteRequest env req sessionId) r transport st))
             sid = Some t"
  shows "transports st sid = Some t"
  using assms
  by (auto simp: handleRequest_def handleDeleteRequest_def dest: onclose_removes
      split: option.splits if_splits)

lemma delete_exchange_removes:
  assumes "transports (snd (delete_exchange env req st)) sid = Some t"
  shows "transports st sid = Some t"
  using assms
  by (auto simp: delete_exchange_def delete_mcp_def dest: handleRequest_delete_removes
      split: looked_up.splits)

lemma handleRequest_delete_rest:
  "transport_sessionId (snd (handleRequest (handleDeleteRequest env req sessionId) r transport st))
     = transport_sessionId st
   \<and> created (snd (handleRequest (handleDeleteRequest env req sessionId) r transport st))
     = created st"
  by (auto simp: handleRequest_def handleDeleteRequest_def onclose_def split: option.splits)

lemma delete_exchange_rest:
  "transport_sessionId (snd (delete_exchange env req st)) = transport_sessionId st
   \<and> created (snd (delete_exchange env req st)) = created st"
  by (auto simp: delete_exchange_def delete_mcp_def handleRequest_delete_rest
      split: looked_up.splits)

lemma stored_under_own_id_delete:
  assumes "stored_under_own_id st"
  shows "stored_under_own_id (snd (delete_exchange env req st))"
  unfolding stored_under_own_id_def delete_exchange_rest[THEN conjunct1]
    delete_exchange_rest[THEN conjunct2]
  using assms delete_exchange_removes[of env req st]
  by (auto simp: stored_under_own_id_def)

lemma reachable_stored_under_own_id: "reachable st \<Longrightarrow> stored_under_own_id st"
proof (induction rule: reachable.induct)
  case reachable_initial
  then show ?case by (simp add: stored_under_own_id_def initial_http_state_def)
next
  case (reachable_post st env req)
  then show ?case by (simp add: stored_under_own_id_post)
next
  case (reachable_get st env req)
  then show ?case by (simp add: stored_under_own_id_get)
next
  case (reachable_delete st env req)
  then show ?case by (simp add: stored_under_own_id_delete)
qed

lemma stored_session_started: "stored_under_own_id st \<Longrightarrow> session_started st req"
proof (cases "transports_get st (mcp_session_id req)")
  case (Own transport)
  assume w: "stored_under_own_id st"
  from Own obtain sid where "transports st sid = Some transport"
    by (auto simp: transports_get_Own)
  with w have "transport_sessionId st transport = Some sid"
    by (simp add: stored_under_own_id_def)
  with Own show ?thesis by (simp add: session_started_def)
qed (simp_all add: session_started_def)

lemma reachable_session_started: "reachable st \<Longrightarrow> session_started st req"
  by (simp add: reachable_stored_under_own_id stored_session_started)

text \<open>
  A header that is the name of a member of \<open>Object.prototype\<close> is taken for the id of a
  session: POST answers 500, DELETE answers 500, and the program gives no answer to a GET.
\<close>

lemma inherited_session_id:
  assumes "mcp_session_id req = Some key" and "key \<in> set Object_prototype_keys"
  shows "post_mcp sdk req st = (InternalServerError, st)
     \<and> get_mcp sdk req st = (Unanswered, st)
     \<and> delete_mcp sdk req st = (TerminationError, st)"
proof -
  from assms have "transports_get st (mcp_session_id req) = Inherited"
    by (simp add: transports_get_Inherited)
  then show ?thesis by (simp add: post_mcp_def get_mcp_def delete_mcp_def)
qed

lemma inherited_session_id_example:
  "get_mcp sdk \<lparr>mcp_session_id = Some ''constructor'', body = Other\<rparr> example_http_state
     = (Unanswered, example_http_state)"
  by (simp add: get_mcp_def transports_get_def Object_prototype_keys_def)

text \<open>
  C5, as stated, at two concrete exchanges. A POST whose \<open>mcp-session-id\<close> header is
  present and empty, with an initialize request, gets a new transport and a new session.
  A POST without the header, with an initialize request that the new transport does not
  accept (406), creates no session.
\<close>

theorem session_creation_counterexample:
  "post_exchange \<lparr>throws = False, accepts_headers = True, randomUUID = other_uuid\<rparr>
     \<lparr>mcp_session_id = Some [], body = Initialize\<rparr> example_http_state
   = (TransportResponse 1,
      \<lparr>transports = [example_uuid \<mapsto> 0, other_uuid \<mapsto> 1],
       transport_sessionId = [0 \<mapsto> example_uuid, 1 \<mapsto> other_uuid],
       created = 2\<rparr>)
   \<and> post_exchange \<lparr>throws = False, accepts_headers = False, randomUUID = other_uuid\<rparr>
     \<lparr>mcp_session_id = None, body = Initialize\<rparr> example_http_state
   = (TransportRefusal 1 NotAcceptable,
      \<lparr>transports = [example_uuid \<mapsto> 0],
       transport_sessionId = [0 \<mapsto> example_uuid],
       created = 2\<rparr>)"
  by (simp add: post_exchange_def post_mcp_def transports_get_def this_sessionId_def
      isInitializeRequest_def handlePostRequest_def handleRequest_def
      onsessioninitialized_def example_http_state_def)

text \<open>
  C5, amended. A new session is created if and only if a POST carries no session id, or an
  empty one, its body is an initialize request, and the transport constructed for it
  accepts the request: the session is stored under the id the transport generated, and
  the transport answers. A GET creates no session and a DELETE creates none. A request of
  any of the three kinds that carries the id of a live session is handed to that
  session's transport. Every other request creates no session: without a session id, a
  POST that is no initialize request is answered 400 (\<open>Bad Request: No valid session ID
  provided\<close>), an initialize request that the new transport does not accept is answered by
  that transport's refusal or, if the call throws, 500, and a GET or DELETE is answered 400
  (\<open>Invalid or missing session ID\<close>); with a session id that is not live and is not the
  name of a member of \<open>Object.prototype\<close>, the answer is 400 as well.
\<close>

theorem session_creation_rule:
  assumes "session_started st req"
  shows
    "transports (snd (post_exchange env req st))
       = (if (mcp_session_id req = None \<or> mcp_session_id req = Some [])
             \<and> body req = Initialize \<and> accepts_headers env \<and> \<not> throws env
          then (transports st)(randomUUID env \<mapsto> created st)
          else transports st)
     \<and> transports (snd (get_exchange env req st)) = transports st
     \<and> (\<forall>sid transport.
           transports (snd (delete_exchange env req st)) sid = Some transport \<longrightarrow>
           transports st sid = Some transport)
     \<and> ((mcp_session_id req = None \<or> mcp_session_id req = Some []) \<longrightarrow>
         body req = Initialize \<longrightarrow>
         post_exchange env req st
           = (if throws env then (InternalServerError, st\<lparr>created := Suc (created st)\<rparr>)
              else if \<not> accepts_headers env
                then (TransportRefusal (created st) NotAcceptable,
                      st\<lparr>created := Suc (created st)\<rparr>)
              else (TransportResponse (created st),
                    \<lparr>transports = (transports st)(randomUUID env \<mapsto> created st),
                     transport_sessionId =
                       (transport_sessionId st)(created st \<mapsto> randomUUID env),
                     created = Suc (created st)\<rparr>)))
     \<and> (\<forall>sdk sid transport.
           mcp_session_id req = Some (Rep_uuid sid) \<longrightarrow>
           transports st sid = Some transport \<longrightarrow>
           post_mcp sdk req st = handleRequest sdk InternalServerError transport st
           \<and> get_mcp sdk req st = handleRequest sdk Unanswered transport st
           \<and> delete_mcp sdk req st = handleRequest sdk TerminationError transport st)
     \<and> (\<forall>sdk. (mcp_session_id req = None \<or> mcp_session_id req = Some []) \<longrightarrow>
           (body req \<noteq> Initialize \<longrightarrow> post_mcp sdk req st = (BadRequest, st))
           \<and> get_mcp sdk req st = (InvalidSession, st)
           \<and> delete_mcp sdk req st = (InvalidSession, st))
     \<and> (\<forall>sdk key.
           mcp_session_id req = Some key \<longrightarrow> key \<noteq> [] \<longrightarrow>
           key \<notin> set Object_prototype_keys \<longrightarrow>
           (\<forall>sid. key = Rep_uuid sid \<longrightarrow> transports st sid = None) \<longrightarrow>
           post_mcp sdk req st = (BadRequest, st)
           \<and> get_mcp sdk req st = (InvalidSession, st)
           \<and> delete_mcp sdk req st = (InvalidSession, st))"
proof (intro conjI allI impI)
  show "transports (snd (post_exchange env req st))
       = (if (mcp_session_id req = None \<or> mcp_session_id req = Some [])
             \<and> body req = Initialize \<and> accepts_headers env \<and> \<not> throws env
          then (transports st)(randomUUID env \<mapsto> created st)
          else transports st)"
  proof (cases "transports_get st (mcp_session_id req)")
    case (Own transport)
    with assms obtain sid where i: "transport_sessionId st transport = Some sid"
      by (auto simp: session_started_def)
    from Own have "mcp_session_id req \<noteq> None \<and> mcp_session_id req \<noteq> Some []"
      by (auto simp: transports_get_Own Rep_uuid_not_Nil)
    with Own i show ?thesis
      by (auto simp: post_exchange_def post_mcp_def this_sessionId_def
          handlePostRequest_started)
  next
    case Inherited
    then have "mcp_session_id req \<noteq> None \<and> mcp_session_id req \<noteq> Some []"
      by (auto simp: transports_get_Inherited Object_prototype_keys_def)
    with Inherited show ?thesis by (auto simp: post_exchange_def post_mcp_def)
  next
    case Undefined
    then show ?thesis
      by (cases "mcp_session_id req")
        (auto simp: post_exchange_def post_mcp_def this_sessionId_def isInitializeRequest_def
          handlePostRequest_def handleRequest_def onsessioninitialized_def)
  qed
next
  show "transports (snd (get_exchange env req st)) = transports st"
    by (simp add: get_exchange_def get_mcp_def handleGetRequest_no_session
        split: looked_up.splits)
next
  fix sid transport
  assume "transports (snd (delete_exchange env req st)) sid = Some transport"
  then show "transports st sid = Some transport" by (rule delete_exchange_removes)
next
  assume "mcp_session_id req = None \<or> mcp_session_id req = Some []" "body req = Initialize"
  then show "post_exchange env req st
           = (if throws env then (InternalServerError, st\<lparr>created := Suc (created st)\<rparr>)
              else if \<not> accepts_headers env
                then (TransportRefusal (created st) NotAcceptable,
                      st\<lparr>created := Suc (created st)\<rparr>)
              else (TransportResponse (created st),
                    \<lparr>transports = (transports st)(randomUUID env \<mapsto> created st),
                     transport_sessionId =
                       (transport_sessionId st)(created st \<mapsto> randomUUID env),
                     created = Suc (created st)\<rparr>))"
    by (auto simp: post_exchange_def post_mcp_def transports_get_no_token this_sessionId_def
        isInitializeRequest_def handlePostRequest_def handleRequest_def
        onsessioninitialized_def)
next
  fix sdk sid transport
  assume "mcp_session_id req = Some (Rep_uuid sid)" "transports st sid = Some transport"
  then have o: "transports_get st (mcp_session_id req) = Own transport"
    by (simp add: transports_get_uuid)
  from o show "post_mcp sdk req st = handleRequest sdk InternalServerError transport st"
    by (simp add: post_mcp_def)
  from o show "get_mcp sdk req st = handleRequest sdk Unanswered transport st"
    by (simp add: get_mcp_def)
  from o show "delete_mcp sdk req st = handleRequest sdk TerminationError transport st"
    by (simp add: delete_mcp_def)
next
  fix sdk
  assume n: "mcp_session_id req = None \<or> mcp_session_id req = Some []"
  then have u: "transports_get st (mcp_session_id req) = Undefined"
    by (rule transports_get_no_token)
  from u show "get_mcp sdk req st = (InvalidSession, st)" by (simp add: get_mcp_def)
  from u show "delete_mcp sdk req st = (InvalidSession, st)" by (simp add: delete_mcp_def)
  assume "body req \<noteq> Initialize"
  with u show "post_mcp sdk req st = (BadRequest, st)"
    by (simp add: post_mcp_def isInitializeRequest_def)
next
  fix sdk key
  assume k: "mcp_session_id req = Some key" "key \<noteq> []" "key \<notin> set Object_prototype_keys"
    "\<forall>sid. key = Rep_uuid sid \<longrightarrow> transports st sid = None"
  then have u: "transports_get st (mcp_session_id req) = Undefined"
    by (simp add: transports_get_Undefined)
  from u k(1,2) show "post_mcp sdk req st = (BadRequest, st)" by (simp add: post_mcp_def)
  from u show "get_mcp sdk req st = (InvalidSession, st)" by (simp add: get_mcp_def)
  from u show "delete_mcp sdk req st = (InvalidSession, st)" by (simp add: delete_mcp_def)
qed

theorem session_creation_rule_witness:
  "session_started example_http_state \<lparr>mcp_session_id = None, body = Initialize\<rparr>
   \<and> transports (snd (post_exchange
        \<lparr>throws = False, accepts_headers = True, randomUUID = other_uuid\<rparr>
        \<lparr>mcp_session_id = None, body = Initialize\<rparr> example_http_state))
     = [example_uuid \<mapsto> 0, other_uuid \<mapsto> 1]
   \<and> session_started example_http_state
        \<lparr>mcp_session_id = Some ''3f2b8c1e-7a4d-4e5f-9b6a-0c1d2e3f4a5b'', body = Other\<rparr>
   \<and> post_mcp Responds
        \<lparr>mcp_session_id = Some ''3f2b8c1e-7a4d-4e5f-9b6a-0c1d2e3f4a5b'', body = Other\<rparr>
        example_http_state
     = (TransportResponse 0, example_http_state)
   \<and> post_mcp Responds
        \<lparr>mcp_session_id = Some ''9d8c7b6a-5e4f-4a3b-8c2d-1e0f9a8b7c6d'', body = Other\<rparr>
        example_http_state
     = (BadRequest, example_http_state)"
proof -
  let ?env = "\<lparr>throws = False, accepts_headers = True, randomUUID = other_uuid\<rparr>"
  let ?r1 = "\<lparr>mcp_session_id = None, body = Initialize\<rparr>"
  let ?r2 = "\<lparr>mcp_session_id = Some ''3f2b8c1e-7a4d-4e5f-9b6a-0c1d2e3f4a5b'', body = Other\<rparr>"
  let ?r3 = "\<lparr>mcp_session_id = Some ''9d8c7b6a-5e4f-4a3b-8c2d-1e0f9a8b7c6d'', body = Other\<rparr>"
  have s1: "session_started example_http_state ?r1"
    by (simp add: session_started_def transports_get_def)
  have s2: "session_started example_http_state ?r2"
    by (simp add: session_started_def transports_get_def example_http_state_def
        example_uuid_def)
  have s3: "session_started example_http_state ?r3"
    by (simp add: session_started_def transports_get_def example_http_state_def
        example_uuid_def Abs_uuid_inject)
  have a: "transports (snd (post_exchange ?env ?r1 example_http_state))
      = [example_uuid \<mapsto> 0, other_uuid \<mapsto> 1]"
    using session_creation_rule[OF s1, of ?env, THEN conjunct1]
    by (simp add: example_http_state_def)
  have h2: "mcp_session_id ?r2 = Some (Rep_uuid example_uuid)"
    by (simp add: Rep_example_uuid)
  have t2: "transports example_http_state example_uuid = Some 0"
    by (simp add: example_http_state_def)
  have b: "post_mcp Responds ?r2 example_http_state = (TransportResponse 0, example_http_state)"
    using session_creation_rule[OF s2, of ?env, THEN conjunct2, THEN conjunct2,
        THEN conjunct2, THEN conjunct2, THEN conjunct1, rule_format, OF h2 t2,
        THEN conjunct1, of Responds]
    by (simp add: handleRequest_def)
  have h3: "mcp_session_id ?r3 = Some ''9d8c7b6a-5e4f-4a3b-8c2d-1e0f9a8b7c6d''" by simp
  have n3: "''9d8c7b6a-5e4f-4a3b-8c2d-1e0f9a8b7c6d'' \<noteq> []" by simp
  have k3: "''9d8c7b6a-5e4f-4a3b-8c2d-1e0f9a8b7c6d'' \<notin> set Object_prototype_keys"
    by (simp add: Object_prototype_keys_def)
  have d3: "transports example_http_state sid = None"
    if "''9d8c7b6a-5e4f-4a3b-8c2d-1e0f9a8b7c6d'' = Rep_uuid sid" for sid
  proof -
    from that have "sid = other_uuid" by (simp add: other_uuid_def Rep_uuid_inverse)
    then show ?thesis by (simp add: example_http_state_def example_uuids_differ)
  qed
  have c: "post_mcp Responds ?r3 example_http_state = (BadRequest, example_http_state)"
    by (rule session_creation_rule[OF s3, of ?env, THEN conjunct2, THEN conjunct2,
        THEN conjunct2, THEN conjunct2, THEN conjunct2, THEN conjunct2, rule_format,
        OF h3 n3 k3 d3, THEN conjunct1])
  from s1 a s2 b c show ?thesis by blast
qed

text \<open>
  C6. A POST that carries the id of a live session and has an initialize request in its
  body, alone or in a batch, is handed by the program to that session's transport, like
  any request of the session, and the transport, which has its session, refuses it: 400
  \<open>Invalid Request: Server already initialized\<close>, or 406 when it does not accept the
  headers; if the call throws the answer is 500. In each case the sessions are as they
  were: no second session, and the session is not started anew.
\<close>

theorem second_handshake_is_refused:
  assumes "mcp_session_id req = Some (Rep_uuid sid)"
    and "transports st sid = Some transport"
    and "transport_sessionId st transport = Some sid"
    and "True \<in> set (messages (body req))"
  shows "(\<forall>sdk. post_mcp sdk req st = handleRequest sdk InternalServerError transport st)
     \<and> post_exchange env req st
       = (if throws env then InternalServerError
          else if accepts_headers env then TransportRefusal transport AlreadyInitialized
          else TransportRefusal transport NotAcceptable,
          st)"
proof -
  from assms(1,2) have o: "transports_get st (mcp_session_id req) = Own transport"
    by (simp add: transports_get_uuid)
  with assms(3) have t: "this_sessionId st req = Some sid" by (simp add: this_sessionId_def)
  from o have p: "post_mcp sdk req st = handleRequest sdk InternalServerError transport st"
    for sdk
    by (simp add: post_mcp_def)
  from assms(4) have "handleRequest (handlePostRequest env req (Some sid)) InternalServerError
        transport st
      = (if throws env then InternalServerError
         else if accepts_headers env then TransportRefusal transport AlreadyInitialized
         else TransportRefusal transport NotAcceptable,
         st)"
    by (simp add: handlePostRequest_def handleRequest_def)
  with p t show ?thesis by (simp add: post_exchange_def)
qed

theorem second_handshake_is_refused_witness:
  "post_exchange \<lparr>throws = False, accepts_headers = True, randomUUID = other_uuid\<rparr>
     \<lparr>mcp_session_id = Some ''3f2b8c1e-7a4d-4e5f-9b6a-0c1d2e3f4a5b'', body = Initialize\<rparr>
     example_http_state
   = (TransportRefusal 0 AlreadyInitialized, example_http_state)"
proof -
  let ?env = "\<lparr>throws = False, accepts_headers = True, randomUUID = other_uuid\<rparr>"
  let ?r = "\<lparr>mcp_session_id = Some ''3f2b8c1e-7a4d-4e5f-9b6a-0c1d2e3f4a5b'',
      body = Initialize\<rparr>"
  have a: "mcp_session_id ?r = Some (Rep_uuid example_uuid)" by (simp add: Rep_example_uuid)
  have b: "transports example_http_state example_uuid = Some 0"
    by (simp add: example_http_state_def)
  have c: "transport_sessionId example_http_state 0 = Some example_uuid"
    by (simp add: example_http_state_def)
  have d: "True \<in> set (messages (body ?r))" by simp
  show ?thesis
    using second_handshake_is_refused[OF a b c d, of ?env, THEN conjunct2]
    by simp
qed

text \<open>
  C7. After a DELETE on which the transport of a live session closes, the session is out of
  \<open>transports\<close>; a second DELETE with the same id is answered with status 400
  (\<open>Invalid or missing session ID\<close>) and leaves the state as the first one left it, the
  session still absent. Closing a transport twice is the same as closing it once, and a
  DELETE with an id that is not live never changes the state.
\<close>

theorem termination_is_idempotent:
  assumes "mcp_session_id req = Some (Rep_uuid sid)"
    and "transports st sid = Some transport"
    and "transport_sessionId st transport = Some sid"
  shows "delete_mcp ClosesTransport req st
       = (TransportResponse transport, st\<lparr>transports := (transports st)(sid := None)\<rparr>)
     \<and> delete_mcp sdk req (snd (delete_mcp ClosesTransport req st))
       = (InvalidSession, snd (delete_mcp ClosesTransport req st))
     \<and> transports (snd (delete_mcp sdk req (snd (delete_mcp ClosesTransport req st)))) sid = None
     \<and> onclose transport (onclose transport st) = onclose transport st
     \<and> (\<forall>st'. transports st' sid = None \<longrightarrow> delete_mcp sdk req st' = (InvalidSession, st'))"
proof -
  from assms have l: "transports_get st (mcp_session_id req) = Own transport"
    by (simp add: transports_get_uuid)
  from assms have oc: "onclose transport st = st\<lparr>transports := (transports st)(sid := None)\<rparr>"
    by (simp add: onclose_def)
  from l oc have first: "delete_mcp ClosesTransport req st
       = (TransportResponse transport, st\<lparr>transports := (transports st)(sid := None)\<rparr>)"
    by (simp add: delete_mcp_def handleRequest_def)
  have gone: "delete_mcp sdk req st' = (InvalidSession, st')" if "transports st' sid = None"
    for st'
    using that assms(1) by (simp add: delete_mcp_def transports_get_uuid)
  have second: "delete_mcp sdk req (st\<lparr>transports := (transports st)(sid := None)\<rparr>)
       = (InvalidSession, st\<lparr>transports := (transports st)(sid := None)\<rparr>)"
    by (rule gone) simp
  have twice: "onclose transport (onclose transport st) = onclose transport st"
    by (simp add: oc) (simp add: onclose_def assms)
  from first second twice gone show ?thesis by simp
qed

theorem termination_is_idempotent_witness:
  "delete_mcp ClosesTransport
     \<lparr>mcp_session_id = Some ''3f2b8c1e-7a4d-4e5f-9b6a-0c1d2e3f4a5b'', body = Other\<rparr>
     example_http_state
   = (TransportResponse 0,
      \<lparr>transports = Map.empty, transport_sessionId = [0 \<mapsto> example_uuid], created = 1\<rparr>)
   \<and> delete_mcp ClosesTransport
       \<lparr>mcp_session_id = Some ''3f2b8c1e-7a4d-4e5f-9b6a-0c1d2e3f4a5b'', body = Other\<rparr>
       \<lparr>transports = Map.empty, transport_sessionId = [0 \<mapsto> example_uuid], created = 1\<rparr>
   = (InvalidSession,
      \<lparr>transports = Map.empty, transport_sessionId = [0 \<mapsto> example_uuid], created = 1\<rparr>)"
proof -
  let ?r = "\<lparr>mcp_session_id = Some ''3f2b8c1e-7a4d-4e5f-9b6a-0c1d2e3f4a5b'', body = Other\<rparr>"
  have a: "mcp_session_id ?r = Some (Rep_uuid example_uuid)" by (simp add: Rep_example_uuid)
  have b: "transports example_http_state example_uuid = Some 0"
    by (simp add: example_http_state_def)
  have c: "transport_sessionId example_http_state 0 = Some example_uuid"
    by (simp add: example_http_state_def)
  note f = termination_is_idempotent[OF a b c, of ClosesTransport, THEN conjunct1]
  note s = termination_is_idempotent[OF a b c, of ClosesTransport, THEN conjunct2,
      THEN conjunct1]
  from s show ?thesis by (simp add: f) (simp add: example_http_state_def)
qed

end
